theory Spec2Isabelle
  imports Complex_Main
begin


chapter \<open>The exam session of the quiz generator\<close>

text \<open>
  The repository holds two \<open>ExamInterface\<close> classes: the basic one (second part of
  \<^verbatim>\<open>file-selector.js\<close>, hard-coded questions, answers keyed by
  \<open>currentQuestionIndex + 1\<close>) and the API one (\<^verbatim>\<open>script_api.js\<close>, questions fetched from
  the server, answers keyed by \<open>question.id\<close>). Functions of the basic class carry the suffix
  \<open>_basic\<close>, functions of the API class the suffix \<open>_api\<close>; a function without suffix has the
  same body in both files.

  The model keeps the fields of the class. Of the page it keeps what decides whether a field
  is written or an exception is thrown: whether \<open>showResults\<close> has replaced the exam page by
  the results (\<open>resultsPage\<close>), the radio inputs of the options, which the code looks up
  before it stores an answer (\<open>optionInputs\<close>), and the submit dialog that the API
  \<open>submitExam\<close> looks up at its end. A call that only paints (\<open>updateDisplay\<close>, \<open>showToast\<close>,
  \<open>showNotification\<close>, \<open>animateTransition\<close>) changes no field and is left out; where it comes
  after the stores of a function, the function is modelled by its stores.

  The HTML pages are not part of the sources. The exam page is taken to hold the elements the
  code looks up; the option inputs are taken to be its only inputs that carry a \<open>value\<close>; in
  the basic class they are taken to lie inside \<open>.exam-container\<close>, whose content
  \<open>showResults\<close> replaces, and the submit dialog outside it. In the API class \<open>showResults\<close>
  replaces the whole \<open>document.body\<close>. Wall-clock time (\<open>examStartTime\<close>, \<open>time_taken\<close>) is
  left out.
\<close>

section \<open>JavaScript numbers\<close>

text \<open>
  Counters are small integers and exact. The percentage is computed in binary64:
  \<^verbatim>\<open>Math.round((correct / total) * 100)\<close>. A finite non-negative double is a pair of a
  mantissa and a binary exponent, denoting \<open>mant * 2 ^ expo\<close>; \<open>round_double p q\<close> is the
  double nearest to the fraction \<open>p / q\<close> (53 significant bits, ties to even, gradual
  underflow below \<open>2 ^ - 1022\<close>). Overflow does not arise for the operands used here.
\<close>

datatype double = Double (mant: int) (expo: int)

definition val :: "double \<Rightarrow> real" where
  "val d = of_int (mant d) * 2 powi (expo d)"

text \<open>Number of binary digits of a natural number.\<close>

fun bitlen :: "nat \<Rightarrow> nat" where
  "bitlen n = (if n = 0 then 0 else Suc (bitlen (n div 2)))"

declare bitlen.simps [simp del]

text \<open>Integer nearest to \<open>n / d\<close> for \<open>0 < d\<close>, a tie going to the even neighbour.\<close>

definition rne_div :: "int \<Rightarrow> int \<Rightarrow> int" where
  "rne_div n d =
     (let a = n div d; r = n mod d
      in if 2 * r < d then a else if d < 2 * r then a + 1
         else if even a then a else a + 1)"

definition round_double :: "int \<Rightarrow> int \<Rightarrow> double" where
  "round_double p q =
     (if p = 0 then Double 0 0 else
      let e0 = int (bitlen (nat p)) - int (bitlen (nat q));
          e = (if q * 2 ^ nat e0 \<le> p * 2 ^ nat (- e0) then e0 else e0 - 1);
          k = max e (- 1022) - 52
      in Double (rne_div (p * 2 ^ nat (- k)) (q * 2 ^ nat k)) k)"

text \<open>
  \<open>a / b\<close> on two counters; \<open>None\<close> stands for the results that are not finite numbers
  (\<open>0 / 0\<close> is \<open>NaN\<close>, \<open>a / 0\<close> is \<open>Infinity\<close>).
\<close>

definition js_div :: "nat \<Rightarrow> nat \<Rightarrow> double option" where
  "js_div a b = (if b = 0 then None else Some (round_double (int a) (int b)))"

definition js_mul :: "double \<Rightarrow> nat \<Rightarrow> double" where
  "js_mul d n = round_double (mant d * int n * 2 ^ nat (expo d)) (2 ^ nat (- expo d))"

text \<open>\<^verbatim>\<open>Math.round\<close>: the nearest integer, a tie going up, that is \<open>\<lfloor>x + 1/2\<rfloor>\<close>.\<close>

definition Math_round :: "double \<Rightarrow> int" where
  "Math_round d =
     (2 * mant d * 2 ^ nat (expo d) + 2 ^ nat (- expo d)) div (2 * 2 ^ nat (- expo d))"

text \<open>\<^verbatim>\<open>Math.round((correct / total) * 100)\<close>; \<open>NaN\<close> and \<open>Infinity\<close> pass through.\<close>

definition percentage_of :: "nat \<Rightarrow> nat \<Rightarrow> int option" where
  "percentage_of c t = map_option (\<lambda>d. Math_round (js_mul d 100)) (js_div c t)"

section \<open>JavaScript strings\<close>

text \<open>
  Strings are modelled with the code units below 256. \<open>toString\<close> is the decimal notation
  of a non-negative integer, as \<^verbatim>\<open>(index + 1).toString()\<close> and the template literals
  \<^verbatim>\<open>value="${index + 1}"\<close> produce it.
\<close>

fun toString :: "nat \<Rightarrow> string" where
  "toString n = (if n < 10 then [''0123456789'' ! n]
                 else toString (n div 10) @ [''0123456789'' ! (n mod 10)])"

declare toString.simps [simp del]

text \<open>The class \<^verbatim>\<open>\d\<close> of the regular expression \<^verbatim>\<open>/[^\d]/g\<close>.\<close>

definition isDigit :: "char \<Rightarrow> bool" where
  "isDigit c = (c \<in> set ''0123456789'')"

definition isWhiteSpace :: "char \<Rightarrow> bool" where
  "isWhiteSpace c =
     (c \<in> set [CHR 0x20, CHR 0x09, CHR 0x0A, CHR 0x0B, CHR 0x0C, CHR 0x0D, CHR 0xA0])"

primrec position :: "'a \<Rightarrow> 'a list \<Rightarrow> nat option" where
  "position x [] = None"
| "position x (y # ys) = (if x = y then Some 0 else map_option Suc (position x ys))"

definition digitValue :: "nat \<Rightarrow> char \<Rightarrow> nat option" where
  "digitValue radix c =
     (case (case position c ''0123456789abcdef'' of
              None \<Rightarrow> position c ''0123456789ABCDEF''
            | Some v \<Rightarrow> Some v) of
        None \<Rightarrow> None
      | Some v \<Rightarrow> if v < radix then Some v else None)"

fun parseDigits :: "nat \<Rightarrow> string \<Rightarrow> nat option \<Rightarrow> nat option" where
  "parseDigits radix [] acc = acc"
| "parseDigits radix (c # cs) acc =
     (case digitValue radix c of
        None \<Rightarrow> acc
      | Some v \<Rightarrow>
          parseDigits radix cs (Some (radix * (case acc of None \<Rightarrow> 0 | Some a \<Rightarrow> a) + v)))"

text \<open>
  \<^verbatim>\<open>parseInt(s)\<close> without a radix: leading white space is skipped, a sign is read, the
  prefix \<open>0x\<close> selects radix 16, and the longest prefix of digits is converted; \<open>None\<close> is
  \<open>NaN\<close>. The value is exact below \<open>2 ^ 53\<close>.
\<close>

definition parseInt :: "string \<Rightarrow> int option" where
  "parseInt s =
     (let s1 = dropWhile isWhiteSpace s;
          s2 = (if take 1 s1 = ''-'' \<or> take 1 s1 = ''+'' then drop 1 s1 else s1);
          r = (if take 2 s2 = ''0x'' \<or> take 2 s2 = ''0X'' then parseDigits 16 (drop 2 s2) None
               else parseDigits 10 s2 None)
      in map_option (\<lambda>n. if take 1 s1 = ''-'' then - int n else int n) r)"

text \<open>
  \<^verbatim>\<open>String.fromCharCode(x)\<close> as the list of its code units: one unit, \<open>x\<close> modulo
  \<open>2 ^ 16\<close>, and 0 for \<open>NaN\<close>. \<open>codeUnits\<close> reads a modelled string the same way, so that
  \<^verbatim>\<open>===\<close> on strings is equality of the lists.
\<close>

definition fromCharCode :: "int option \<Rightarrow> nat list" where
  "fromCharCode x = (case x of None \<Rightarrow> [0] | Some n \<Rightarrow> [nat (n mod 65536)])"

definition codeUnits :: "string \<Rightarrow> nat list" where
  "codeUnits s = map of_char s"

section \<open>Questions and the session\<close>

text \<open>A question object \<^verbatim>\<open>{id, text, options, correct}\<close>.\<close>

record Question =
  id_q :: nat
  text_q :: string
  options_q :: "string list"
  correct_q :: string

text \<open>
  The fields of \<open>ExamInterface\<close>. \<open>timerInterval\<close> tells whether the interval started by
  \<open>startTimer\<close> is still scheduled (\<open>clearInterval\<close> makes it \<open>False\<close>); \<open>submitTimeouts\<close>
  counts the \<^verbatim>\<open>setTimeout(() => this.submitExam(), 2000)\<close> callbacks of the basic class
  that are scheduled and have not run yet. \<open>resultsPage\<close> belongs to the page, not to the
  class: it tells whether \<open>showResults\<close> has replaced the exam page.
\<close>

record ExamInterface =
  questions :: "Question list"
  currentQuestionIndex :: nat
  answers :: "nat \<rightharpoonup> string"
  markedQuestions :: "nat set"
  timeRemaining :: int
  timerInterval :: bool
  submitTimeouts :: nat
  resultsPage :: bool

text \<open>The object passed to \<open>showResults\<close>; the basic class adds \<open>attempted\<close>.\<close>

record Results =
  total :: int
  correct :: int
  incorrect :: int
  unattempted :: int
  percentage :: "int option"

record ResultsBasic = Results +
  attempted :: int

datatype error = TypeError | Error string


text \<open>
  The ten questions of \<open>loadQuestions\<close>: the whole list of the basic class, and the fallback
  of the API class when the server gives no questions.
\<close>

definition fallbackQuestions :: "Question list" where
  "fallbackQuestions =
    [\<lparr>id_q = 1, text_q = ''But just then, both of them were ______ by the soldiers'',
      options_q = [''A. system'', ''B. process'', ''C. method'', ''D. captured''],
      correct_q = ''D''\<rparr>,
     \<lparr>id_q = 2, text_q = ''______ is not innocent such as Uday'',
      options_q = [''A. Method'', ''B. System'', ''C. Process'', ''D. Harmit''],
      correct_q = ''D''\<rparr>,
     \<lparr>id_q = 3, text_q = ''The following ______ has been divided into four segments'',
      options_q = [''A. process'', ''B. sentence'', ''C. method'', ''D. system''],
      correct_q = ''B''\<rparr>,
     \<lparr>id_q = 4,
      text_q = ''If there is no need to substitute it, select No substitution ______'',
      options_q = [''A. method'', ''B. required'', ''C. process'', ''D. system''],
      correct_q = ''B''\<rparr>,
     \<lparr>id_q = 5,
      text_q = ''But, when the ______ was thrown in front of the lion, the lion licked him and quietly sat beside him'',
      options_q = [''A. system'', ''B. slave'', ''C. method'', ''D. process''],
      correct_q = ''B''\<rparr>,
     \<lparr>id_q = 6, text_q = ''______ out a tower of pots'',
      options_q = [''A. knock'', ''B. process'', ''C. method'', ''D. system''],
      correct_q = ''A''\<rparr>,
     \<lparr>id_q = 7, text_q = ''The following sentence has been divided into four ______'',
      options_q = [''A. method'', ''B. system'', ''C. process'', ''D. segments''],
      correct_q = ''D''\<rparr>,
     \<lparr>id_q = 8,
      text_q = ''How is the structure of health infrastructure and health care system in ______'',
      options_q = [''A. Process'', ''B. Method'', ''C. System'', ''D. India''],
      correct_q = ''D''\<rparr>,
     \<lparr>id_q = 9,
      text_q = ''Parts of the following sentence have been underlined and given as ______'',
      options_q = [''A. options'', ''B. process'', ''C. system'', ''D. method''],
      correct_q = ''A''\<rparr>,
     \<lparr>id_q = 10,
      text_q = ''Read the passage carefully and select the most ______ option to fill in each blank'',
      options_q = [''A. appropriate'', ''B. process'', ''C. system'', ''D. method''],
      correct_q = ''A''\<rparr>]"

subsection \<open>Loading the questions (API class)\<close>

text \<open>
  What \<^verbatim>\<open>fetch('/api/questions')\<close> brings: the request is rejected, or the response is
  not \<open>ok\<close> (with its status code), or the body is parsed to \<open>data\<close> with the fields
  \<open>data.status\<close> and \<open>data.questions\<close> (\<open>None\<close> when the field is missing or \<open>null\<close>).
  \<open>loadQuestions_try\<close> is the \<^verbatim>\<open>try\<close> block from that request on; the polling of the
  extraction progress before it only paints the loading screen.
\<close>

record ApiData =
  status :: string
  questions_d :: "Question list option"

datatype fetched = Rejected | NotOk nat | Json ApiData

definition loadQuestions_try :: "fetched \<Rightarrow> error + Question list" where
  "loadQuestions_try response =
     (case response of
        Rejected \<Rightarrow> Inl TypeError
      | NotOk code \<Rightarrow> Inl (Error (''HTTP error! status: '' @ toString code))
      | Json data \<Rightarrow>
          (case questions_d data of
             None \<Rightarrow> Inl (Error ''No questions received from API'')
           | Some qs \<Rightarrow>
               if status data = ''success'' \<and> length qs > 0 then Inr qs
               else Inl (Error ''No questions received from API'')))"

text \<open>The \<^verbatim>\<open>catch\<close> block replaces every error by the fallback questions.\<close>

definition loadQuestions_api :: "fetched \<Rightarrow> Question list" where
  "loadQuestions_api response =
     (case loadQuestions_try response of Inl e \<Rightarrow> fallbackQuestions | Inr qs \<Rightarrow> qs)"

definition loadQuestions_basic :: "Question list" where
  "loadQuestions_basic = fallbackQuestions"

text \<open>
  The session once the constructor and \<open>init\<close> have run on the questions \<open>qs\<close>: the first
  question is shown, nothing is answered or marked, 90 minutes remain and the timer runs.
\<close>

definition newExam :: "Question list \<Rightarrow> ExamInterface" where
  "newExam qs =
     \<lparr>questions = qs, currentQuestionIndex = 0, answers = Map.empty, markedQuestions = {},
      timeRemaining = 90 * 60, timerInterval = True, submitTimeouts = 0, resultsPage = False\<rparr>"

subsection \<open>The page\<close>

text \<open>
  The values of the radio inputs that \<open>displayOptions\<close> (basic) and \<open>updateDisplay\<close> (API)
  render for the current question: \<^verbatim>\<open>value="${index + 1}"\<close> for each option; in the API
  class the input of position \<open>n\<close> also has the id \<open>option\<close>\<open>n\<close>. Every change of
  \<open>currentQuestionIndex\<close> is followed by \<open>updateDisplay\<close>, so the exam page shows the current
  question. Once \<open>showResults\<close> has replaced the page, no such input is left.
\<close>

definition optionInputs :: "ExamInterface \<Rightarrow> string list" where
  "optionInputs s =
     (if resultsPage s then []
      else if currentQuestionIndex s < length (questions s)
      then map (\<lambda>index. toString (index + 1))
             [0..<length (options_q (questions s ! currentQuestionIndex s))]
      else [])"

text \<open>\<^verbatim>\<open>this.questions[this.currentQuestionIndex].id\<close>; reading \<open>id\<close> of \<open>undefined\<close> throws.\<close>

definition getCurrentQuestionId :: "ExamInterface \<Rightarrow> error + nat" where
  "getCurrentQuestionId s =
     (if currentQuestionIndex s < length (questions s)
      then Inr (id_q (questions s ! currentQuestionIndex s))
      else Inl TypeError)"

subsection \<open>Navigation\<close>

definition previousQuestion :: "ExamInterface \<Rightarrow> ExamInterface" where
  "previousQuestion s =
     (if currentQuestionIndex s > 0
      then s\<lparr>currentQuestionIndex := currentQuestionIndex s - 1\<rparr>
      else s)"

text \<open>
  At the last question the basic class opens the submit dialog (\<open>showSubmitModal\<close>), the API
  class does nothing; no field changes in either.
\<close>

definition nextQuestion_basic :: "ExamInterface \<Rightarrow> ExamInterface" where
  "nextQuestion_basic s =
     (if int (currentQuestionIndex s) < int (length (questions s)) - 1
      then s\<lparr>currentQuestionIndex := currentQuestionIndex s + 1\<rparr>
      else s)"

definition nextQuestion_api :: "ExamInterface \<Rightarrow> ExamInterface" where
  "nextQuestion_api s =
     (if int (currentQuestionIndex s) < int (length (questions s)) - 1
      then s\<lparr>currentQuestionIndex := currentQuestionIndex s + 1\<rparr>
      else s)"

definition goToQuestion :: "int \<Rightarrow> ExamInterface \<Rightarrow> ExamInterface" where
  "goToQuestion index s =
     (if index \<ge> 0 \<and> index < int (length (questions s))
      then s\<lparr>currentQuestionIndex := nat index\<rparr>
      else s)"


subsection \<open>Answers and marks\<close>

text \<open>
  Basic class. \<open>selectOption(value)\<close> first looks up
  \<^verbatim>\<open>document.querySelector(`input[value="${value}"]`).closest('.option')\<close>: without such
  an input \<open>querySelector\<close> gives \<open>null\<close> and the call throws a \<open>TypeError\<close> before
  anything is stored.
\<close>

definition selectOption_basic :: "string \<Rightarrow> ExamInterface \<Rightarrow> error + ExamInterface" where
  "selectOption_basic value' s =
     (if value' \<in> set (optionInputs s)
      then Inr (s\<lparr>answers := (answers s)(currentQuestionIndex s + 1 \<mapsto> value')\<rparr>)
      else Inl TypeError)"

text \<open>
  \<open>saveAnswer\<close> reads \<^verbatim>\<open>document.querySelector('input[name="answer"]:checked')\<close>; the
  argument \<open>checked\<close> is the value of that input, \<open>None\<close> when no input is checked.
\<close>

definition saveAnswer_basic :: "string option \<Rightarrow> ExamInterface \<Rightarrow> error + ExamInterface" where
  "saveAnswer_basic checked s =
     (case checked of None \<Rightarrow> Inr s | Some value' \<Rightarrow> selectOption_basic value' s)"

definition clearAnswer_basic :: "ExamInterface \<Rightarrow> ExamInterface" where
  "clearAnswer_basic s =
     (let questionId = currentQuestionIndex s + 1
      in s\<lparr>answers := (answers s)(questionId := None)\<rparr>)"

definition markForReview_basic :: "ExamInterface \<Rightarrow> ExamInterface" where
  "markForReview_basic s =
     (let questionId = currentQuestionIndex s + 1
      in if questionId \<in> markedQuestions s
         then s\<lparr>markedQuestions := markedQuestions s - {questionId}\<rparr>
         else s\<lparr>markedQuestions := insert questionId (markedQuestions s)\<rparr>)"

text \<open>
  API class. \<open>selectOption(optionNumber)\<close> stores only if
  \<^verbatim>\<open>document.getElementById(`option${optionNumber}`)\<close> finds the input, and does nothing
  otherwise.
\<close>

definition selectOption_api :: "int \<Rightarrow> ExamInterface \<Rightarrow> error + ExamInterface" where
  "selectOption_api optionNumber s =
     (if 1 \<le> optionNumber \<and> optionNumber \<le> int (length (optionInputs s))
      then (case getCurrentQuestionId s of
              Inl e \<Rightarrow> Inl e
            | Inr questionId \<Rightarrow>
                Inr (s\<lparr>answers := (answers s)(questionId \<mapsto> toString (nat optionNumber))\<rparr>))
      else Inr s)"

text \<open>
  The \<open>change\<close> listener of a radio input and \<open>saveAnswer\<close> both store the \<open>value\<close> of an
  input of the page under the id of the current question.
\<close>

definition storeInputValue_api :: "string \<Rightarrow> ExamInterface \<Rightarrow> error + ExamInterface" where
  "storeInputValue_api value' s =
     (case getCurrentQuestionId s of
        Inl e \<Rightarrow> Inl e
      | Inr questionId \<Rightarrow> Inr (s\<lparr>answers := (answers s)(questionId \<mapsto> value')\<rparr>))"

definition saveAnswer_api :: "string option \<Rightarrow> ExamInterface \<Rightarrow> error + ExamInterface" where
  "saveAnswer_api checked s =
     (case checked of None \<Rightarrow> Inr s | Some value' \<Rightarrow> storeInputValue_api value' s)"

definition clearAnswer_api :: "ExamInterface \<Rightarrow> error + ExamInterface" where
  "clearAnswer_api s =
     (case getCurrentQuestionId s of
        Inl e \<Rightarrow> Inl e
      | Inr questionId \<Rightarrow> Inr (s\<lparr>answers := (answers s)(questionId := None)\<rparr>))"

definition markForReview_api :: "ExamInterface \<Rightarrow> error + ExamInterface" where
  "markForReview_api s =
     (case getCurrentQuestionId s of
        Inl e \<Rightarrow> Inl e
      | Inr questionId \<Rightarrow>
          if questionId \<in> markedQuestions s
          then Inr (s\<lparr>markedQuestions := markedQuestions s - {questionId}\<rparr>)
          else Inr (s\<lparr>markedQuestions := insert questionId (markedQuestions s)\<rparr>))"


subsection \<open>Scoring\<close>

text \<open>
  Basic class, \<open>calculateResults\<close>: the \<open>forEach\<close> over the questions with its two counters.
  An answer counts as attempted when it is truthy (present and not the empty string) and as
  correct when it is identical to \<^verbatim>\<open>question.correct.replace(/[^\d]/g, '')\<close>.
\<close>

fun calculateResults_loop ::
  "(nat \<rightharpoonup> string) \<Rightarrow> Question list \<Rightarrow> nat \<Rightarrow> nat \<Rightarrow> nat \<Rightarrow> nat \<times> nat" where
  "calculateResults_loop ans [] index nCorrect nAttempted = (nCorrect, nAttempted)"
| "calculateResults_loop ans (question # rest) index nCorrect nAttempted =
     (let questionId = index + 1
      in case ans questionId of
           None \<Rightarrow> calculateResults_loop ans rest (index + 1) nCorrect nAttempted
         | Some userAnswer \<Rightarrow>
             if userAnswer = [] then calculateResults_loop ans rest (index + 1) nCorrect nAttempted
             else if userAnswer = filter isDigit (correct_q question)
             then calculateResults_loop ans rest (index + 1) (nCorrect + 1) (nAttempted + 1)
             else calculateResults_loop ans rest (index + 1) nCorrect (nAttempted + 1))"

definition calculateResults :: "ExamInterface \<Rightarrow> ResultsBasic" where
  "calculateResults s =
     (let counters = calculateResults_loop (answers s) (questions s) 0 0 0;
          nCorrect = fst counters; nAttempted = snd counters
      in \<lparr>total = int (length (questions s)),
          correct = int nCorrect,
          incorrect = int nAttempted - int nCorrect,
          unattempted = int (length (questions s)) - int nAttempted,
          percentage = percentage_of nCorrect (length (questions s)),
          attempted = int nAttempted\<rparr>)"

text \<open>
  API class, \<open>showOfflineResults\<close>: the answered questions are the keys of \<open>answers\<close>; an
  answer is correct when the letter \<^verbatim>\<open>String.fromCharCode(64 + parseInt(userAnswer))\<close> is
  identical to \<open>question.correct\<close>. The field \<open>time_taken\<close> (wall clock) is left out.
\<close>

fun showOfflineResults_loop :: "(nat \<rightharpoonup> string) \<Rightarrow> Question list \<Rightarrow> nat \<Rightarrow> nat" where
  "showOfflineResults_loop ans [] nCorrect = nCorrect"
| "showOfflineResults_loop ans (question # rest) nCorrect =
     (case ans (id_q question) of
        None \<Rightarrow> showOfflineResults_loop ans rest nCorrect
      | Some userAnswer \<Rightarrow>
          if userAnswer = [] then showOfflineResults_loop ans rest nCorrect
          else if fromCharCode (map_option (\<lambda>n. 64 + n) (parseInt userAnswer))
                    = codeUnits (correct_q question)
          then showOfflineResults_loop ans rest (nCorrect + 1)
          else showOfflineResults_loop ans rest nCorrect)"

definition showOfflineResults :: "ExamInterface \<Rightarrow> Results" where
  "showOfflineResults s =
     (let totalQuestions = length (questions s);
          answeredQuestions = card (dom (answers s));
          nCorrect = showOfflineResults_loop (answers s) (questions s) 0
      in \<lparr>total = int totalQuestions,
          correct = int nCorrect,
          incorrect = int answeredQuestions - int nCorrect,
          unattempted = int totalQuestions - int answeredQuestions,
          percentage = percentage_of nCorrect totalQuestions\<rparr>)"

subsection \<open>Submission and the timer\<close>

text \<open>
  Basic class. \<open>submitExam\<close> clears the interval, computes the results and hands them to
  \<open>showResults\<close>, which replaces the content of \<open>.exam-container\<close>. It returns, next to the
  session, the results it has shown.
\<close>

definition submitExam_basic :: "ExamInterface \<Rightarrow> ResultsBasic \<times> ExamInterface" where
  "submitExam_basic s =
     (let s1 = s\<lparr>timerInterval := False\<rparr>;
          results = calculateResults s1
      in (results, s1\<lparr>resultsPage := True\<rparr>))"

text \<open>
  API class. \<open>hideSubmitModal\<close> reads \<open>classList\<close> of
  \<^verbatim>\<open>document.getElementById('submitModal')\<close>, which is \<open>null\<close> once \<open>showResults\<close> has
  replaced \<open>document.body\<close>.
\<close>

definition hideSubmitModal_api :: "ExamInterface \<Rightarrow> error + unit" where
  "hideSubmitModal_api s = (if resultsPage s then Inl TypeError else Inr ())"

text \<open>
  \<open>submitExam\<close> clears the interval, posts the answers and shows the answer of the server
  (\<open>response = Some result\<close>) or, when the request fails, its own offline results; then,
  outside the \<open>try\<close> block, it calls \<open>hideSubmitModal\<close>. It returns the results it has
  shown, the session, and how its promise is settled.
\<close>

definition submitExam_api ::
  "Results option \<Rightarrow> ExamInterface \<Rightarrow> Results \<times> ExamInterface \<times> (error + unit)" where
  "submitExam_api response s =
     (let s1 = s\<lparr>timerInterval := False\<rparr>;
          result = (case response of Some result \<Rightarrow> result | None \<Rightarrow> showOfflineResults s1);
          s2 = s1\<lparr>resultsPage := True\<rparr>
      in (result, s2, hideSubmitModal_api s2))"

text \<open>
  Basic class: \<open>autoSubmitExam\<close> clears the interval and schedules \<open>submitExam\<close> two seconds
  later; \<open>submitTimeout_basic\<close> is that scheduled callback running.
\<close>

definition autoSubmitExam :: "ExamInterface \<Rightarrow> ExamInterface" where
  "autoSubmitExam s = s\<lparr>timerInterval := False, submitTimeouts := submitTimeouts s + 1\<rparr>"

definition submitTimeout_basic :: "ExamInterface \<Rightarrow> (ResultsBasic \<times> ExamInterface) option" where
  "submitTimeout_basic s =
     (if submitTimeouts s = 0 then None
      else Some (submitExam_basic (s\<lparr>submitTimeouts := submitTimeouts s - 1\<rparr>)))"

text \<open>
  API class: \<open>timeUp\<close> clears the interval and calls \<open>submitExam\<close> without awaiting it, so
  the way the promise is settled does not reach the caller.
\<close>

definition timeUp :: "Results option \<Rightarrow> ExamInterface \<Rightarrow> Results \<times> ExamInterface" where
  "timeUp response s =
     (let submitted = submitExam_api response (s\<lparr>timerInterval := False\<rparr>)
      in (fst submitted, fst (snd submitted)))"

text \<open>
  The callback that \<open>startTimer\<close> gives to \<open>setInterval\<close>, once per second. It runs only
  while the interval is scheduled. The API callback returns the results when it submits.
\<close>

definition tick_basic :: "ExamInterface \<Rightarrow> ExamInterface" where
  "tick_basic s =
     (if \<not> timerInterval s then s
      else let s1 = s\<lparr>timeRemaining := timeRemaining s - 1\<rparr>
           in if timeRemaining s1 \<le> 0 then autoSubmitExam s1 else s1)"

definition tick_api :: "Results option \<Rightarrow> ExamInterface \<Rightarrow> Results option \<times> ExamInterface" where
  "tick_api response s =
     (if \<not> timerInterval s then (None, s)
      else let s1 = s\<lparr>timeRemaining := timeRemaining s - 1\<rparr>
           in if timeRemaining s1 \<le> 0
              then (Some (fst (timeUp response s1)), snd (timeUp response s1))
              else (None, s1))"

text \<open>Any number of seconds; the API version collects the results shown on the way.\<close>

primrec ticks_basic :: "nat \<Rightarrow> ExamInterface \<Rightarrow> ExamInterface" where
  "ticks_basic 0 s = s"
| "ticks_basic (Suc n) s = ticks_basic n (tick_basic s)"



subsection \<open>Sessions that the page can reach\<close>

text \<open>
  The states that user events, the timer and the submission lead to, from the session that
  \<open>init\<close> sets up. A radio input that is changed or found checked is one of the inputs of
  the page, so these two events are gone with the exam page. The listeners of the document
  (the keys) stay after the results page; the relations allow them in every state.
\<close>

inductive reachable_basic :: "ExamInterface \<Rightarrow> bool" where
  init_basic: "reachable_basic (newExam loadQuestions_basic)"
| previous_basic: "reachable_basic s \<Longrightarrow> reachable_basic (previousQuestion s)"
| next_basic: "reachable_basic s \<Longrightarrow> reachable_basic (nextQuestion_basic s)"
| goTo_basic: "reachable_basic s \<Longrightarrow> reachable_basic (goToQuestion index s)"
| select_basic:
    "reachable_basic s \<Longrightarrow> selectOption_basic value' s = Inr s' \<Longrightarrow> reachable_basic s'"
| save_basic:
    "reachable_basic s \<Longrightarrow> saveAnswer_basic checked s = Inr s' \<Longrightarrow> reachable_basic s'"
| clear_basic: "reachable_basic s \<Longrightarrow> reachable_basic (clearAnswer_basic s)"
| mark_basic: "reachable_basic s \<Longrightarrow> reachable_basic (markForReview_basic s)"
| tick_basic: "reachable_basic s \<Longrightarrow> reachable_basic (tick_basic s)"
| timeout_basic:
    "reachable_basic s \<Longrightarrow> submitTimeout_basic s = Some (r, s') \<Longrightarrow> reachable_basic s'"
| submit_basic: "reachable_basic s \<Longrightarrow> reachable_basic (snd (submitExam_basic s))"

inductive reachable_api :: "ExamInterface \<Rightarrow> bool" where
  init_api: "reachable_api (newExam (loadQuestions_api response))"
| previous_api: "reachable_api s \<Longrightarrow> reachable_api (previousQuestion s)"
| next_api: "reachable_api s \<Longrightarrow> reachable_api (nextQuestion_api s)"
| goTo_api: "reachable_api s \<Longrightarrow> reachable_api (goToQuestion index s)"
| select_api:
    "reachable_api s \<Longrightarrow> selectOption_api optionNumber s = Inr s' \<Longrightarrow> reachable_api s'"
| change_api:
    "reachable_api s \<Longrightarrow> value' \<in> set (optionInputs s) \<Longrightarrow>
     storeInputValue_api value' s = Inr s' \<Longrightarrow> reachable_api s'"
| save_api:
    "reachable_api s \<Longrightarrow> value' \<in> set (optionInputs s) \<Longrightarrow>
     saveAnswer_api (Some value') s = Inr s' \<Longrightarrow> reachable_api s'"
| clear_api: "reachable_api s \<Longrightarrow> clearAnswer_api s = Inr s' \<Longrightarrow> reachable_api s'"
| mark_api: "reachable_api s \<Longrightarrow> markForReview_api s = Inr s' \<Longrightarrow> reachable_api s'"
| tick_api: "reachable_api s \<Longrightarrow> reachable_api (snd (tick_api response s))"
| submit_api: "reachable_api s \<Longrightarrow> reachable_api (fst (snd (submitExam_api response s)))"

text \<open>
  The answers fit the questions: every key of \<open>answers\<close> is the id of a question, and the
  value stored under it is the decimal notation of a position among the options of that
  question, counted from 1.
\<close>

definition answersFitQuestions :: "ExamInterface \<Rightarrow> bool" where
  "answersFitQuestions s =
     (\<forall>k v. answers s k = Some v \<longrightarrow>
        (\<exists>q \<in> set (questions s). id_q q = k \<and>
           (\<exists>n. 1 \<le> n \<and> n \<le> length (options_q q) \<and> v = toString n)))"

subsection \<open>Concrete sessions\<close>

text \<open>A sequence of operations, stopping at the first exception.\<close>

fun perform ::
  "(ExamInterface \<Rightarrow> error + ExamInterface) list \<Rightarrow> ExamInterface \<Rightarrow> error + ExamInterface" where
  "perform [] s = Inr s"
| "perform (f # fs) s = (case f s of Inl e \<Rightarrow> Inl e | Inr s' \<Rightarrow> perform fs s')"

text \<open>
  Three questions of four options each, as the server may send them; the arguments are
  their \<open>correct\<close> fields. The questions of the repository name the correct option by its
  letter, so the correct options 2, 1 and 3 are \<open>threeQuestions ''B'' ''A'' ''C''\<close>.
\<close>

definition threeQuestions :: "string \<Rightarrow> string \<Rightarrow> string \<Rightarrow> Question list" where
  "threeQuestions c1 c2 c3 =
    [\<lparr>id_q = 1, text_q = ''first ______'',
      options_q = [''A. one'', ''B. two'', ''C. three'', ''D. four''], correct_q = c1\<rparr>,
     \<lparr>id_q = 2, text_q = ''second ______'',
      options_q = [''A. one'', ''B. two'', ''C. three'', ''D. four''], correct_q = c2\<rparr>,
     \<lparr>id_q = 3, text_q = ''third ______'',
      options_q = [''A. one'', ''B. two'', ''C. three'', ''D. four''], correct_q = c3\<rparr>]"

text \<open>
  The API session that has loaded the questions \<open>qs\<close> from the server: question 1 answered
  with option 2, then the next question, answered with option 2; a third question is left
  open.
\<close>

definition answered_api :: "Question list \<Rightarrow> error + ExamInterface" where
  "answered_api qs =
     perform [selectOption_api 2, \<lambda>s. Inr (nextQuestion_api s), selectOption_api 2]
       (newExam (loadQuestions_api (Json \<lparr>status = ''success'', questions_d = Some qs\<rparr>)))"

text \<open>The built-in questions, the first one answered with its option 4.\<close>

definition fourth_basic :: "error + ExamInterface" where
  "fourth_basic = selectOption_basic ''4'' (newExam loadQuestions_basic)"

definition fourth_api :: "error + ExamInterface" where
  "fourth_api = selectOption_api 4 (newExam (loadQuestions_api Rejected))"

text \<open>A question list in which an id repeats, each question with a single option and a
  \<open>correct\<close> field that names no option.\<close>

definition malformedQuestions :: "Question list" where
  "malformedQuestions =
    [\<lparr>id_q = 7, text_q = ''one ______'', options_q = [''A. only''], correct_q = ''Z''\<rparr>,
     \<lparr>id_q = 7, text_q = ''two ______'', options_q = [''A. only''], correct_q = ''Z''\<rparr>]"


section \<open>Rounding to a double\<close>

lemma bitlen_bounds: "0 < n \<Longrightarrow> 2 ^ (bitlen n - 1) \<le> n \<and> n < 2 ^ bitlen n"
proof (induction n rule: bitlen.induct)
  case (1 n)
  have b: "bitlen n = Suc (bitlen (n div 2))" using 1(2) by (subst bitlen.simps) simp
  show ?case
  proof (cases "n div 2 = 0")
    case True
    then have "bitlen (n div 2) = 0" by (subst bitlen.simps) simp
    moreover from True 1(2) have "n = 1" by (simp add: div_eq_0_iff)
    ultimately show ?thesis using b by simp
  next
    case False
    with 1 have IH: "2 ^ (bitlen (n div 2) - 1) \<le> n div 2 \<and> n div 2 < 2 ^ bitlen (n div 2)"
      by simp
    from False have "bitlen (n div 2) = Suc (bitlen (n div 2 div 2))"
      by (subst bitlen.simps) simp
    then obtain j where j: "bitlen (n div 2) = Suc j" by blast
    from IH j have "2 ^ j \<le> n div 2" "n div 2 < 2 ^ Suc j" by simp_all
    then have "2 * 2 ^ j \<le> n" "n < 2 * 2 ^ Suc j" by linarith+
    then show ?thesis using b j by simp
  qed
qed

lemma rne_div_le: "0 < d \<Longrightarrow> n \<le> B * d \<Longrightarrow> rne_div n d \<le> B"
proof -
  assume d: "0 < d" and n: "n \<le> B * d"
  have "n div d \<le> (B * d) div d" using n d by (rule zdiv_mono1)
  then have a: "n div d \<le> B" using d by simp
  show ?thesis
  proof (cases "n div d = B")
    case True
    have "n = d * (n div d) + n mod d" by simp
    with True n have "n mod d \<le> 0" by (simp add: mult.commute)
    moreover have "0 \<le> n mod d" using d by simp
    ultimately have "n mod d = 0" by simp
    with d True show ?thesis by (simp add: rne_div_def Let_def)
  next
    case False
    with a have "n div d + 1 \<le> B" by simp
    then show ?thesis by (simp add: rne_div_def Let_def)
  qed
qed

lemma rne_div_nonneg: "0 < d \<Longrightarrow> 0 \<le> n \<Longrightarrow> 0 \<le> rne_div n d"
  by (simp add: rne_div_def Let_def pos_imp_zdiv_nonneg_iff)

lemma pow2_ratio: "(2::real) ^ nat a / 2 ^ nat (- a) = 2 powi a"
  by (cases "0 \<le> a") (simp_all add: power_int_def field_simps)

lemma pow2_split: "k \<le> K \<Longrightarrow> (2::real) powi K = 2 ^ nat (K - k) * (2 ^ nat k / 2 ^ nat (- k))"
proof -
  assume "k \<le> K"
  then have "(2::real) ^ nat (K - k) = 2 powi (K - k)" by (simp add: power_int_def)
  then have "(2::real) ^ nat (K - k) * (2 ^ nat k / 2 ^ nat (- k)) = 2 powi (K - k) * 2 powi k"
    by (simp only: pow2_ratio)
  also have "\<dots> = 2 powi (K - k + k)" by (rule power_int_add [symmetric]) simp
  finally show ?thesis by simp
qed

lemma round_double_nonneg: "0 \<le> p \<Longrightarrow> 0 < q \<Longrightarrow> 0 \<le> mant (round_double p q)"
  by (simp add: round_double_def Let_def rne_div_nonneg)

lemma Math_round_val: "Math_round d = \<lfloor>val d + 1 / 2\<rfloor>"
proof (cases "0 \<le> expo d")
  case True
  then have "val d = of_int (mant d * 2 ^ nat (expo d))"
    by (simp add: val_def power_int_def)
  then have "\<lfloor>val d + 1 / 2\<rfloor> = mant d * 2 ^ nat (expo d)"
    by (simp add: floor_eq_iff)
  with True show ?thesis by (simp add: Math_round_def)
next
  case False
  define D :: int where "D = 2 ^ nat (- expo d)"
  have D: "0 < D" by (simp add: D_def)
  from False have "val d = of_int (mant d) / of_int D"
    by (simp add: val_def power_int_def D_def field_simps)
  then have "val d + 1 / 2 = of_int (2 * mant d + D) / of_int (2 * D)"
    using D by (simp add: field_simps)
  then have "\<lfloor>val d + 1 / 2\<rfloor> = (2 * mant d + D) div (2 * D)"
    by (simp only: floor_divide_of_int_eq)
  with False show ?thesis by (simp add: Math_round_def D_def)
qed

text \<open>The exponent chosen by \<open>round_double\<close> is not above the one of the fraction.\<close>

lemma expo_lower:
  assumes p: "0 < p" and q: "0 < q"
  defines "e0 \<equiv> int (bitlen (nat p)) - int (bitlen (nat q))"
  defines "e \<equiv> (if q * 2 ^ nat e0 \<le> p * 2 ^ nat (- e0) then e0 else e0 - 1)"
  shows "(2::real) powi e \<le> of_int p / of_int q"
proof (cases "q * 2 ^ nat e0 \<le> p * 2 ^ nat (- e0)")
  case True
  then have "real_of_int (q * 2 ^ nat e0) \<le> real_of_int (p * 2 ^ nat (- e0))"
    by (simp only: of_int_le_iff)
  then have "real_of_int q * 2 ^ nat e0 \<le> real_of_int p * 2 ^ nat (- e0)" by simp
  then have "(2::real) ^ nat e0 / 2 ^ nat (- e0) \<le> of_int p / of_int q"
    using q by (simp add: field_simps)
  with True show ?thesis by (simp add: e_def pow2_ratio)
next
  case False
  have bp: "2 ^ (bitlen (nat p) - 1) \<le> nat p" and bq: "nat q < 2 ^ bitlen (nat q)"
    using bitlen_bounds[of "nat p"] bitlen_bounds[of "nat q"] p q by simp_all
  have bp1: "1 \<le> bitlen (nat p)" using p by (subst bitlen.simps) simp
  from bp have "(2::real) ^ (bitlen (nat p) - 1) \<le> real (nat p)"
    by (metis of_nat_le_iff of_nat_numeral of_nat_power)
  then have P: "(2::real) powi (int (bitlen (nat p)) - 1) \<le> of_int p"
    using p bp1 by (simp add: power_int_def nat_diff_distrib' of_nat_diff)
  from bq have "real (nat q) < (2::real) ^ bitlen (nat q)"
    by (metis of_nat_less_iff of_nat_numeral of_nat_power)
  then have Q: "of_int q < (2::real) powi (int (bitlen (nat q)))" using q by simp
  have eq: "e0 - 1 = int (bitlen (nat p)) - 1 - int (bitlen (nat q))"
    by (simp add: e0_def)
  have "(2::real) powi (e0 - 1)
      = 2 powi (int (bitlen (nat p)) - 1) / 2 powi (int (bitlen (nat q)))"
    unfolding eq by (rule power_int_diff) simp
  also have "\<dots> \<le> of_int p / 2 powi (int (bitlen (nat q)))"
    using P by (simp add: divide_right_mono)
  also have "\<dots> \<le> of_int p / of_int q"
    using Q p q by (simp add: frac_le)
  finally show ?thesis using False by (simp add: e_def)
qed

text \<open>
  Rounding does not cross a double: a fraction below \<open>M * 2 ^ K\<close>, with \<open>M\<close> of at most 53
  bits, is rounded to a double below it.
\<close>

lemma round_double_le:
  assumes p: "0 \<le> p" and q: "0 < q"
    and le: "of_int p / of_int q \<le> (of_int M :: real) * 2 powi K"
    and M: "0 \<le> M" "M < 2 ^ 53" and K: "- 1074 \<le> K"
  shows "val (round_double p q) \<le> of_int M * 2 powi K"
proof (cases "p = 0")
  case True
  then show ?thesis using M by (simp add: round_double_def val_def)
next
  case False
  with p have p0: "0 < p" by simp
  define e0 where "e0 = int (bitlen (nat p)) - int (bitlen (nat q))"
  define e where "e = (if q * 2 ^ nat e0 \<le> p * 2 ^ nat (- e0) then e0 else e0 - 1)"
  define k where "k = max e (- 1022) - 52"
  have rd: "round_double p q = Double (rne_div (p * 2 ^ nat (- k)) (q * 2 ^ nat k)) k"
    using False by (simp add: round_double_def Let_def e0_def e_def k_def)
  have lower: "(2::real) powi e \<le> of_int p / of_int q"
    unfolding e_def e0_def using p0 q by (rule expo_lower)
  have "real_of_int M * 2 powi K < 2 ^ 53 * 2 powi K"
    using M by (simp add: of_int_less_iff [of M "2 ^ 53", where 'a = real, simplified])
  also have "\<dots> = 2 powi (53 + K)"
    by (subst power_int_add) simp_all
  finally have lt: "(2::real) powi e < 2 powi (53 + K)" using lower le by simp
  have "e < 53 + K"
  proof (rule ccontr)
    assume "\<not> e < 53 + K"
    then have "53 + K \<le> e" by simp
    then have "(2::real) powi (53 + K) \<le> 2 powi e" by (rule power_int_increasing) simp
    with lt show False by simp
  qed
  with K have kK: "k \<le> K" by (simp add: k_def)
  have "real_of_int p \<le> real_of_int M * 2 powi K * real_of_int q"
    using le q by (simp add: field_simps)
  also have "\<dots> = real_of_int M * (2 ^ nat (K - k) * (2 ^ nat k / 2 ^ nat (- k))) * real_of_int q"
    by (simp only: pow2_split [OF kK])
  finally have "real_of_int p * 2 ^ nat (- k) \<le> real_of_int M * 2 ^ nat (K - k) * (real_of_int q * 2 ^ nat k)"
    by (simp add: field_simps)
  then have "real_of_int (p * 2 ^ nat (- k)) \<le> real_of_int (M * 2 ^ nat (K - k) * (q * 2 ^ nat k))"
    by simp
  then have "p * 2 ^ nat (- k) \<le> M * 2 ^ nat (K - k) * (q * 2 ^ nat k)"
    by (simp only: of_int_le_iff)
  moreover have "0 < q * 2 ^ nat k" using q by simp
  ultimately have "rne_div (p * 2 ^ nat (- k)) (q * 2 ^ nat k) \<le> M * 2 ^ nat (K - k)"
    by (intro rne_div_le)
  then have "real_of_int (rne_div (p * 2 ^ nat (- k)) (q * 2 ^ nat k)) \<le> real_of_int (M * 2 ^ nat (K - k))"
    by (simp only: of_int_le_iff)
  then have "val (round_double p q) \<le> real_of_int (M * 2 ^ nat (K - k)) * 2 powi k"
    by (simp add: rd val_def)
  also have "\<dots> = real_of_int M * (2 ^ nat (K - k) * 2 powi k)" by simp
  also have "\<dots> = real_of_int M * 2 powi K"
    by (simp only: pow2_split [OF kK] pow2_ratio)
  finally show ?thesis .
qed

lemma val_nonneg: "0 \<le> mant d \<Longrightarrow> 0 \<le> val d"
  by (simp add: val_def)

lemma js_mul_val_le:
  assumes m: "0 \<le> mant d" and le: "val d * real n \<le> of_int M * 2 powi K"
    and M: "0 \<le> M" "M < 2 ^ 53" and K: "- 1074 \<le> K"
  shows "val (js_mul d n) \<le> of_int M * 2 powi K"
proof -
  have "real_of_int (mant d * int n * 2 ^ nat (expo d)) / real_of_int (2 ^ nat (- expo d))
      = val d * real n"
    using pow2_ratio [of "expo d"] by (simp add: val_def field_simps)
  with le have "real_of_int (mant d * int n * 2 ^ nat (expo d)) / real_of_int (2 ^ nat (- expo d))
      \<le> of_int M * 2 powi K" by simp
  moreover have "0 \<le> mant d * int n * 2 ^ nat (expo d)" using m by simp
  moreover have "(0::int) < 2 ^ nat (- expo d)" by simp
  ultimately show ?thesis unfolding js_mul_def using M K by (intro round_double_le)
qed

text \<open>With at most \<open>t\<close> correct answers out of \<open>t > 0\<close> the percentage is within 0 and 100.\<close>

lemma percentage_of_bounds:
  assumes "c \<le> t" and "0 < t"
  shows "\<exists>p. percentage_of c t = Some p \<and> 0 \<le> p \<and> p \<le> 100"
proof -
  define d where "d = round_double (int c) (int t)"
  have jd: "js_div c t = Some d" using assms by (simp add: js_div_def d_def)
  have d0: "0 \<le> mant d" unfolding d_def using assms by (intro round_double_nonneg) simp_all
  have "real_of_int (int c) / real_of_int (int t) \<le> real_of_int (2 ^ 52) * 2 powi (- 52)"
    using assms by (simp add: power_int_minus field_simps)
  then have "val d \<le> real_of_int (2 ^ 52) * 2 powi (- 52)"
    unfolding d_def using assms by (intro round_double_le) simp_all
  then have d1: "val d \<le> 1" by (simp add: power_int_minus)
  define r where "r = js_mul d 100"
  have r0: "0 \<le> mant r" unfolding r_def js_mul_def using d0
    by (intro round_double_nonneg) simp_all
  have "val d * real 100 \<le> real_of_int (100 * 2 ^ 46) * 2 powi (- 46)"
    using d1 by (simp add: power_int_minus)
  then have "val r \<le> real_of_int (100 * 2 ^ 46) * 2 powi (- 46)"
    unfolding r_def using d0 by (intro js_mul_val_le) simp_all
  then have r1: "val r \<le> 100" by (simp add: power_int_minus)
  have "0 \<le> Math_round r" "Math_round r \<le> 100"
    using r1 val_nonneg [OF r0] by (simp_all add: Math_round_val le_floor_iff floor_le_iff)
  then show ?thesis by (simp add: percentage_of_def jd r_def)
qed


section \<open>Concrete sessions and values\<close>

lemma newExam_sel:
  "questions (newExam qs) = qs" "currentQuestionIndex (newExam qs) = 0"
  "answers (newExam qs) = Map.empty" "markedQuestions (newExam qs) = {}"
  "timeRemaining (newExam qs) = 5400" "timerInterval (newExam qs)"
  "submitTimeouts (newExam qs) = 0" "\<not> resultsPage (newExam qs)"
  by (simp_all add: newExam_def)

lemmas double_eval = js_div_def js_mul_def Math_round_def round_double_def
  rne_div_def bitlen.simps Let_def

lemma js_div_1_3: "js_div (Suc 0) 3 = Some (Double 6004799503160661 (- 54))"
  by (simp add: double_eval)

lemma js_mul_third: "js_mul (Double 6004799503160661 (- 54)) 100 = Double 4691249611844266 (- 47)"
  by (simp add: double_eval)

lemma percentage_of_1_3: "percentage_of (Suc 0) 3 = Some 33"
  unfolding percentage_of_def js_div_1_3 option.map js_mul_third
  by (simp add: Math_round_def)

lemma js_div_1_10: "js_div (Suc 0) 10 = Some (Double 7205759403792794 (- 56))"
  by (simp add: double_eval)

lemma js_mul_tenth: "js_mul (Double 7205759403792794 (- 56)) 100 = Double 5629499534213120 (- 49)"
  by (simp add: double_eval)

lemma percentage_of_1_10: "percentage_of (Suc 0) 10 = Some 10"
  unfolding percentage_of_def js_div_1_10 option.map js_mul_tenth
  by (simp add: Math_round_def)

text \<open>
  The percentage is not always the exact quotient rounded half up: 23 correct answers out
  of 40 are exactly 57.5 percent, and the two roundings of binary64 give 57.
\<close>

lemma js_div_23_40: "js_div 23 40 = Some (Double 5179139571476070 (- 53))"
  by (simp add: double_eval)

lemma js_mul_23_40: "js_mul (Double 5179139571476070 (- 53)) 100 = Double 8092405580431359 (- 47)"
  by (simp add: double_eval)

lemma percentage_of_23_40: "percentage_of 23 40 = Some 57"
  unfolding percentage_of_def js_div_23_40 option.map js_mul_23_40
  by (simp add: Math_round_def)

lemma round_double_0: "round_double 0 q = Double 0 0"
  by (simp add: round_double_def)

lemma percentage_of_0: "0 < t \<Longrightarrow> percentage_of 0 t = Some 0"
  by (simp add: percentage_of_def js_div_def js_mul_def round_double_0 Math_round_def)

lemmas string_eval = isDigit_def isWhiteSpace_def toString.simps digitValue_def parseInt_def
  fromCharCode_def codeUnits_def

lemma answered_api_eq:
  "answered_api (threeQuestions c1 c2 c3) = Inr ((newExam (threeQuestions c1 c2 c3))
     \<lparr>currentQuestionIndex := 1, answers := [1 \<mapsto> ''2'', 2 \<mapsto> ''2'']\<rparr>)"
  by (simp add: answered_api_def loadQuestions_api_def loadQuestions_try_def newExam_def
      threeQuestions_def selectOption_api_def nextQuestion_api_def optionInputs_def
      getCurrentQuestionId_def toString.simps)

lemma fourth_basic_eq:
  "fourth_basic = Inr ((newExam fallbackQuestions)\<lparr>answers := [1 \<mapsto> ''4'']\<rparr>)"
  by (simp add: fourth_basic_def loadQuestions_basic_def selectOption_basic_def optionInputs_def
      newExam_def fallbackQuestions_def toString.simps)

lemma fourth_api_eq:
  "fourth_api = Inr ((newExam fallbackQuestions)\<lparr>answers := [1 \<mapsto> ''4'']\<rparr>)"
  by (simp add: fourth_api_def loadQuestions_api_def loadQuestions_try_def selectOption_api_def
      optionInputs_def getCurrentQuestionId_def newExam_def fallbackQuestions_def toString.simps)


section \<open>Scoring\<close>

lemma calculateResults_loop_bounds:
  "fst (calculateResults_loop ans qs i c a) \<le> c + length qs \<and>
   snd (calculateResults_loop ans qs i c a) \<le> a + length qs \<and>
   (c \<le> a \<longrightarrow> fst (calculateResults_loop ans qs i c a) \<le> snd (calculateResults_loop ans qs i c a))"
proof (induction qs arbitrary: i c a)
  case Nil
  then show ?case by simp
next
  case (Cons q qs)
  show ?case
    using Cons.IH [of "i + 1" c a] Cons.IH [of "i + 1" "c + 1" "a + 1"] Cons.IH [of "i + 1" c "a + 1"]
    by (auto simp: Let_def split: option.splits)
qed

lemma showOfflineResults_loop_bound:
  "showOfflineResults_loop ans qs c \<le> c + length qs"
proof (induction qs arbitrary: c)
  case Nil
  then show ?case by simp
next
  case (Cons q qs)
  show ?case
    using Cons.IH [of c] Cons.IH [of "c + 1"]
    by (auto split: option.splits)
qed

lemma calculateResults_eq:
  "calculateResults_loop (answers s) (questions s) 0 0 0 = (c, a) \<Longrightarrow> length (questions s) = t \<Longrightarrow>
   calculateResults s =
     \<lparr>total = int t, correct = int c, incorrect = int a - int c, unattempted = int t - int a,
      percentage = percentage_of c t, attempted = int a\<rparr>"
  by (simp add: calculateResults_def Let_def)

lemma showOfflineResults_eq:
  "showOfflineResults_loop (answers s) (questions s) 0 = c \<Longrightarrow> card (dom (answers s)) = a \<Longrightarrow>
   length (questions s) = t \<Longrightarrow>
   showOfflineResults s =
     \<lparr>total = int t, correct = int c, incorrect = int a - int c, unattempted = int t - int a,
      percentage = percentage_of c t\<rparr>"
  by (simp add: showOfflineResults_def Let_def)

lemma showOfflineResults_frame [simp]:
  "showOfflineResults (s\<lparr>timerInterval := b\<rparr>) = showOfflineResults s"
  "showOfflineResults (s\<lparr>timeRemaining := t\<rparr>) = showOfflineResults s"
  "showOfflineResults (s\<lparr>resultsPage := b\<rparr>) = showOfflineResults s"
  by (simp_all add: showOfflineResults_def)

lemma calculateResults_frame [simp]:
  "calculateResults (s\<lparr>timerInterval := b\<rparr>) = calculateResults s"
  "calculateResults (s\<lparr>timeRemaining := t\<rparr>) = calculateResults s"
  "calculateResults (s\<lparr>submitTimeouts := k\<rparr>) = calculateResults s"
  "calculateResults (s\<lparr>resultsPage := b\<rparr>) = calculateResults s"
  by (simp_all add: calculateResults_def)

text \<open>
  What a call of \<open>submitExam\<close> does, whatever the session: the timer is cleared, the results
  are computed from the questions and answers (or taken from the server) and shown, and in
  the API class the promise is rejected by \<open>hideSubmitModal\<close>.
\<close>

lemma submitExam_basic_eq:
  "submitExam_basic s = (calculateResults s, s\<lparr>timerInterval := False, resultsPage := True\<rparr>)"
  by (simp add: submitExam_basic_def Let_def)

lemma submitExam_api_eq:
  "submitExam_api response s =
     ((case response of Some result \<Rightarrow> result | None \<Rightarrow> showOfflineResults s),
      s\<lparr>timerInterval := False, resultsPage := True\<rparr>, Inl TypeError)"
  by (simp add: submitExam_api_def hideSubmitModal_api_def Let_def cong: option.case_cong)

lemma calculateResults_fourth:
  "calculateResults ((newExam fallbackQuestions)\<lparr>answers := [1 \<mapsto> ''4'']\<rparr>) =
     \<lparr>total = 10, correct = 0, incorrect = 1, unattempted = 9, percentage = Some 0,
      attempted = 1\<rparr>"
proof -
  let ?s = "(newExam fallbackQuestions)\<lparr>answers := [1 \<mapsto> ''4'']\<rparr>"
  have "calculateResults ?s =
     \<lparr>total = int 10, correct = int 0, incorrect = int (Suc 0) - int 0,
      unattempted = int 10 - int (Suc 0), percentage = percentage_of 0 10, attempted = int (Suc 0)\<rparr>"
    by (rule calculateResults_eq)
       (simp_all add: newExam_def fallbackQuestions_def string_eval)
  then show ?thesis by (simp add: percentage_of_0)
qed

lemma scenario_api:
  "showOfflineResults_loop [1 \<mapsto> ''2'', 2 \<mapsto> ''2''] (threeQuestions ''B'' ''A'' ''C'') 0 = 1"
  by (simp add: threeQuestions_def string_eval)

lemma scenario_results_api:
  "showOfflineResults_loop [1 \<mapsto> ''2'', 2 \<mapsto> ''2''] (threeQuestions c1 c2 c3) 0 = c \<Longrightarrow>
   map_sum id (\<lambda>s. fst (submitExam_api None s)) (answered_api (threeQuestions c1 c2 c3)) =
     Inr \<lparr>total = 3, correct = int c, incorrect = 2 - int c, unattempted = 1,
          percentage = percentage_of c 3\<rparr>"
proof -
  let ?s = "(newExam (threeQuestions c1 c2 c3))
     \<lparr>currentQuestionIndex := 1, answers := [1 \<mapsto> ''2'', 2 \<mapsto> ''2'']\<rparr>"
  assume "showOfflineResults_loop [1 \<mapsto> ''2'', 2 \<mapsto> ''2''] (threeQuestions c1 c2 c3) 0 = c"
  then have "showOfflineResults ?s =
     \<lparr>total = int 3, correct = int c, incorrect = int 2 - int c,
      unattempted = int 3 - int 2, percentage = percentage_of c 3\<rparr>"
    by (intro showOfflineResults_eq) (simp_all add: newExam_def threeQuestions_def)
  then show ?thesis by (simp add: answered_api_eq submitExam_api_eq)
qed

text \<open>
  Claim C1. Three questions whose correct options are the positions 2, 1 and 3; question 1
  is answered with option 2, question 2 with option 2, question 3 is left open, and the
  session is submitted. The results shown are \<open>total = 3\<close>, \<open>correct = 1\<close>, \<open>incorrect = 1\<close>,
  \<open>unattempted = 1\<close>, \<open>percentage = 33\<close>, and 33 is \<open>100 * 1 / 3\<close> rounded half up. The
  session is one of the API class, which takes its questions from the server, scored by its
  own offline results; the basic class has its ten built-in questions only. The results are
  those that \<open>submitExam\<close> hands to \<open>showResults\<close>.
\<close>

theorem scenario_report:
  "map_sum id (\<lambda>s. fst (submitExam_api None s)) (answered_api (threeQuestions ''B'' ''A'' ''C'')) =
     Inr \<lparr>total = 3, correct = 1, incorrect = 1, unattempted = 1, percentage = Some 33\<rparr>
   \<and> (33 :: int) = \<lfloor>100 * 1 / (3 :: real) + 1 / 2\<rfloor>"
proof
  show "map_sum id (\<lambda>s. fst (submitExam_api None s)) (answered_api (threeQuestions ''B'' ''A'' ''C'')) =
     Inr \<lparr>total = 3, correct = 1, incorrect = 1, unattempted = 1, percentage = Some 33\<rparr>"
    using scenario_results_api [OF scenario_api] by (simp add: percentage_of_1_3)
  show "(33 :: int) = \<lfloor>100 * 1 / (3 :: real) + 1 / 2\<rfloor>"
    by (simp add: eq_commute floor_eq_iff)
qed

text \<open>
  Claim C5. For a session with at least one question and any answers, the results of both
  scoring functions satisfy \<open>correct + incorrect + unattempted = total\<close>, \<open>total\<close> is the
  number of questions, and the percentage is a number from 0 to 100.
\<close>

theorem computeScore_sum_and_range:
  assumes "questions s \<noteq> []"
  shows "correct (calculateResults s) + incorrect (calculateResults s)
           + unattempted (calculateResults s) = total (calculateResults s)
       \<and> total (calculateResults s) = int (length (questions s))
       \<and> (\<exists>p. percentage (calculateResults s) = Some p \<and> 0 \<le> p \<and> p \<le> 100)
       \<and> correct (showOfflineResults s) + incorrect (showOfflineResults s)
           + unattempted (showOfflineResults s) = total (showOfflineResults s)
       \<and> total (showOfflineResults s) = int (length (questions s))
       \<and> (\<exists>p. percentage (showOfflineResults s) = Some p \<and> 0 \<le> p \<and> p \<le> 100)"
proof -
  from assms have len: "0 < length (questions s)" by simp
  have "fst (calculateResults_loop (answers s) (questions s) 0 0 0) \<le> length (questions s)"
    using calculateResults_loop_bounds [of "answers s" "questions s" 0 0 0] by simp
  then have b: "\<exists>p. percentage (calculateResults s) = Some p \<and> 0 \<le> p \<and> p \<le> 100"
    using len by (simp add: calculateResults_def Let_def percentage_of_bounds)
  have "showOfflineResults_loop (answers s) (questions s) 0 \<le> length (questions s)"
    using showOfflineResults_loop_bound [of "answers s" "questions s" 0] by simp
  then have a: "\<exists>p. percentage (showOfflineResults s) = Some p \<and> 0 \<le> p \<and> p \<le> 100"
    using len by (simp add: showOfflineResults_def Let_def percentage_of_bounds)
  show ?thesis using a b by (simp add: calculateResults_def showOfflineResults_def Let_def)
qed

theorem computeScore_sum_and_range_witness:
  "questions (newExam fallbackQuestions) \<noteq> []
   \<and> correct (calculateResults (newExam fallbackQuestions))
       + incorrect (calculateResults (newExam fallbackQuestions))
       + unattempted (calculateResults (newExam fallbackQuestions)) = 10
   \<and> (\<exists>p. percentage (calculateResults (newExam fallbackQuestions)) = Some p \<and> 0 \<le> p \<and> p \<le> 100)
   \<and> correct (showOfflineResults (newExam fallbackQuestions))
       + incorrect (showOfflineResults (newExam fallbackQuestions))
       + unattempted (showOfflineResults (newExam fallbackQuestions)) = 10
   \<and> (\<exists>p. percentage (showOfflineResults (newExam fallbackQuestions)) = Some p \<and> 0 \<le> p \<and> p \<le> 100)"
  using computeScore_sum_and_range [of "newExam fallbackQuestions"]
  by (simp add: newExam_sel fallbackQuestions_def)


section \<open>Navigation and answers\<close>

lemma toString_nonempty: "toString n \<noteq> []"
  by (subst toString.simps) simp

lemma digit_inj: "n < 10 \<Longrightarrow> m < 10 \<Longrightarrow> ''0123456789'' ! n = ''0123456789'' ! m \<Longrightarrow> n = m"
proof -
  assume "n < 10" "m < 10" "''0123456789'' ! n = ''0123456789'' ! m"
  moreover have "distinct ''0123456789''" by simp
  ultimately show "n = m" by (simp add: nth_eq_iff_index_eq)
qed

lemma toString_inj: "toString n = toString m \<Longrightarrow> n = m"
proof (induction n arbitrary: m rule: toString.induct)
  case (1 n)
  show ?case
  proof (cases "n < 10")
    case n: True
    show ?thesis
    proof (cases "m < 10")
      case True
      with n 1(2) show ?thesis
        by (subst (asm) toString.simps, subst (asm) (2) toString.simps) (simp add: digit_inj)
    next
      case False
      with n 1(2) toString_nonempty [of "m div 10"] show ?thesis
        by (subst (asm) toString.simps, subst (asm) (2) toString.simps) simp
    qed
  next
    case n: False
    show ?thesis
    proof (cases "m < 10")
      case True
      with n 1(2) toString_nonempty [of "n div 10"] show ?thesis
        by (subst (asm) toString.simps, subst (asm) (2) toString.simps) simp
    next
      case False
      with n 1(2) have "toString (n div 10) = toString (m div 10)"
        and d: "''0123456789'' ! (n mod 10) = ''0123456789'' ! (m mod 10)"
        by (subst (asm) toString.simps, subst (asm) (2) toString.simps, simp)+
      with 1(1) n have "n div 10 = m div 10" by simp
      moreover from d have "n mod 10 = m mod 10" by (intro digit_inj) simp_all
      ultimately show ?thesis by (metis div_mult_mod_eq)
    qed
  qed
qed

lemma optionInputs_length:
  "\<not> resultsPage s \<Longrightarrow> currentQuestionIndex s < length (questions s) \<Longrightarrow>
   length (optionInputs s) = length (options_q (questions s ! currentQuestionIndex s))"
  by (simp add: optionInputs_def)

lemma optionInputs_resultsPage: "resultsPage s \<Longrightarrow> optionInputs s = []"
  by (simp add: optionInputs_def)

text \<open>Once the results are shown, no answer is stored any more.\<close>

lemma selectOption_resultsPage:
  "resultsPage s \<Longrightarrow> selectOption_basic value' s = Inl TypeError"
  "resultsPage s \<Longrightarrow> selectOption_api optionNumber s = Inr s"
  by (auto simp: selectOption_basic_def selectOption_api_def optionInputs_resultsPage)

lemma optionInputs_iff:
  "\<not> resultsPage s \<Longrightarrow> currentQuestionIndex s < length (questions s) \<Longrightarrow>
   toString n \<in> set (optionInputs s)
     \<longleftrightarrow> 1 \<le> n \<and> n \<le> length (options_q (questions s ! currentQuestionIndex s))"
proof -
  assume p: "\<not> resultsPage s" and r: "currentQuestionIndex s < length (questions s)"
  let ?k = "length (options_q (questions s ! currentQuestionIndex s))"
  have "toString n \<in> set (optionInputs s) \<longleftrightarrow> (\<exists>i<?k. toString n = toString (i + 1))"
    using p r by (auto simp: optionInputs_def)
  also have "\<dots> \<longleftrightarrow> (\<exists>i<?k. n = i + 1)"
    using toString_inj by blast
  also have "\<dots> \<longleftrightarrow> 1 \<le> n \<and> n \<le> ?k" by presburger
  finally show ?thesis .
qed

lemma optionInputs_elem:
  assumes "value' \<in> set (optionInputs s)"
  shows "\<not> resultsPage s \<and> currentQuestionIndex s < length (questions s) \<and>
   (\<exists>n. 1 \<le> n \<and> n \<le> length (options_q (questions s ! currentQuestionIndex s)) \<and>
        value' = toString n)"
proof -
  let ?k = "length (options_q (questions s ! currentQuestionIndex s))"
  from assms have p: "\<not> resultsPage s" and r: "currentQuestionIndex s < length (questions s)"
    by (auto simp: optionInputs_def split: if_splits)
  with assms obtain i where "i < ?k" "value' = toString (i + 1)"
    by (auto simp: optionInputs_def)
  then have "1 \<le> i + 1 \<and> i + 1 \<le> ?k \<and> value' = toString (i + 1)" by simp
  with p r show ?thesis by blast
qed

subsection \<open>Navigation\<close>

text \<open>
  Claim C6. \<open>goToQuestion\<close>, \<open>nextQuestion\<close> and \<open>previousQuestion\<close> leave \<open>answers\<close> and
  \<open>markedQuestions\<close> as they are, for every session and every index; from a session whose
  index is within the questions they lead to an index within the questions; and
  \<open>nextQuestion\<close> at the last question leaves the session as it is.
\<close>

theorem navigation_frame:
  "answers (goToQuestion index s) = answers s
   \<and> markedQuestions (goToQuestion index s) = markedQuestions s
   \<and> answers (previousQuestion s) = answers s
   \<and> markedQuestions (previousQuestion s) = markedQuestions s
   \<and> answers (nextQuestion_basic s) = answers s
   \<and> markedQuestions (nextQuestion_basic s) = markedQuestions s
   \<and> answers (nextQuestion_api s) = answers s
   \<and> markedQuestions (nextQuestion_api s) = markedQuestions s
   \<and> (currentQuestionIndex s < length (questions s) \<longrightarrow>
        currentQuestionIndex (goToQuestion index s) < length (questions (goToQuestion index s))
        \<and> currentQuestionIndex (previousQuestion s) < length (questions (previousQuestion s))
        \<and> currentQuestionIndex (nextQuestion_basic s) < length (questions (nextQuestion_basic s))
        \<and> currentQuestionIndex (nextQuestion_api s) < length (questions (nextQuestion_api s)))
   \<and> (currentQuestionIndex s + 1 = length (questions s) \<longrightarrow>
        nextQuestion_basic s = s \<and> nextQuestion_api s = s)"
  by (auto simp: goToQuestion_def previousQuestion_def nextQuestion_basic_def nextQuestion_api_def)

theorem navigation_frame_witness:
  "currentQuestionIndex ((newExam fallbackQuestions)\<lparr>currentQuestionIndex := 9\<rparr>)
     < length (questions ((newExam fallbackQuestions)\<lparr>currentQuestionIndex := 9\<rparr>))
   \<and> currentQuestionIndex ((newExam fallbackQuestions)\<lparr>currentQuestionIndex := 9\<rparr>) + 1
     = length (questions ((newExam fallbackQuestions)\<lparr>currentQuestionIndex := 9\<rparr>))
   \<and> currentQuestionIndex (goToQuestion 3 ((newExam fallbackQuestions)\<lparr>currentQuestionIndex := 9\<rparr>)) = 3
   \<and> currentQuestionIndex (goToQuestion 10 ((newExam fallbackQuestions)\<lparr>currentQuestionIndex := 9\<rparr>)) = 9
   \<and> answers (goToQuestion 3 ((newExam fallbackQuestions)\<lparr>currentQuestionIndex := 9\<rparr>)) = Map.empty
   \<and> nextQuestion_basic ((newExam fallbackQuestions)\<lparr>currentQuestionIndex := 9\<rparr>)
     = (newExam fallbackQuestions)\<lparr>currentQuestionIndex := 9\<rparr>"
  using navigation_frame [of 3 "(newExam fallbackQuestions)\<lparr>currentQuestionIndex := 9\<rparr>"]
  by (simp add: newExam_def fallbackQuestions_def goToQuestion_def)

subsection \<open>Selecting and clearing an answer\<close>

text \<open>
  Claim C4, as the code has it. An option position outside the options of the current
  question stores nothing: the basic \<open>selectOption\<close> throws a \<open>TypeError\<close>, the API
  \<open>selectOption\<close> returns without any change. This holds on the exam page and on the
  results page alike.
\<close>

theorem selectOption_out_of_range:
  assumes "currentQuestionIndex s < length (questions s)"
  shows "(n < 1 \<or> length (options_q (questions s ! currentQuestionIndex s)) < n \<longrightarrow>
            selectOption_basic (toString n) s = Inl TypeError)
       \<and> (i < 1 \<or> int (length (options_q (questions s ! currentQuestionIndex s))) < i \<longrightarrow>
            selectOption_api i s = Inr s)"
proof (cases "resultsPage s")
  case True
  then show ?thesis
    by (simp add: selectOption_basic_def selectOption_api_def optionInputs_resultsPage)
next
  case False
  with assms optionInputs_iff [of s n] show ?thesis
    by (auto simp: selectOption_basic_def selectOption_api_def optionInputs_length)
qed

theorem selectOption_out_of_range_witness:
  "currentQuestionIndex (newExam fallbackQuestions) < length (questions (newExam fallbackQuestions))
   \<and> length (options_q (questions (newExam fallbackQuestions)
        ! currentQuestionIndex (newExam fallbackQuestions))) < 7
   \<and> selectOption_basic (toString 7) (newExam fallbackQuestions) = Inl TypeError
   \<and> selectOption_api 7 (newExam fallbackQuestions) = Inr (newExam fallbackQuestions)"
  using selectOption_out_of_range [of "newExam fallbackQuestions" 7 7]
  by (simp add: newExam_def fallbackQuestions_def)

text \<open>
  Claim C4 as the specification states it asks for a failure. On the first built-in
  question, which has four options, the API \<open>selectOption(5)\<close> returns normally.
\<close>

theorem selectOption_api_no_failure:
  "length (options_q (questions (newExam fallbackQuestions)
        ! currentQuestionIndex (newExam fallbackQuestions))) = 4
   \<and> selectOption_api 5 (newExam fallbackQuestions) = Inr (newExam fallbackQuestions)"
  by (simp add: selectOption_api_def optionInputs_def newExam_def fallbackQuestions_def)

text \<open>
  Claim C9. A valid option position is the position of one of the option inputs that the
  page shows for the current question (after \<open>showResults\<close> the page shows none, and no
  option can be selected any more). On a question without an answer, selecting a valid
  option and then clearing gives back the session as it was, \<open>answers\<close> included; clearing
  a question without an answer changes nothing.
\<close>

theorem select_clear_roundtrip:
  assumes "1 \<le> n" and "n \<le> length (optionInputs s)"
  shows "(answers s (currentQuestionIndex s + 1) = None \<longrightarrow>
           (\<exists>s'. selectOption_basic (toString n) s = Inr s'
              \<and> answers s' (currentQuestionIndex s + 1) = Some (toString n)
              \<and> clearAnswer_basic s' = s)
           \<and> clearAnswer_basic s = s)
       \<and> (answers s (id_q (questions s ! currentQuestionIndex s)) = None \<longrightarrow>
           (\<exists>s'. selectOption_api (int n) s = Inr s'
              \<and> answers s' (id_q (questions s ! currentQuestionIndex s)) = Some (toString n)
              \<and> clearAnswer_api s' = Inr s)
           \<and> clearAnswer_api s = Inr s)"
proof -
  from assms have p: "\<not> resultsPage s" and r: "currentQuestionIndex s < length (questions s)"
    by (auto simp: optionInputs_def split: if_splits)
  with assms have m: "toString n \<in> set (optionInputs s)"
    by (simp add: optionInputs_iff optionInputs_length)
  have basic: "answers s (currentQuestionIndex s + 1) = None \<longrightarrow>
           (\<exists>s'. selectOption_basic (toString n) s = Inr s'
              \<and> answers s' (currentQuestionIndex s + 1) = Some (toString n)
              \<and> clearAnswer_basic s' = s)
           \<and> clearAnswer_basic s = s"
    using m by (simp add: selectOption_basic_def clearAnswer_basic_def Let_def fun_upd_idem)
  have api: "answers s (id_q (questions s ! currentQuestionIndex s)) = None \<longrightarrow>
           (\<exists>s'. selectOption_api (int n) s = Inr s'
              \<and> answers s' (id_q (questions s ! currentQuestionIndex s)) = Some (toString n)
              \<and> clearAnswer_api s' = Inr s)
           \<and> clearAnswer_api s = Inr s"
    using assms r
    by (simp add: selectOption_api_def clearAnswer_api_def getCurrentQuestionId_def fun_upd_idem)
  from basic api show ?thesis by (rule conjI)
qed

theorem select_clear_roundtrip_witness:
  "(1::nat) \<le> 2 \<and> 2 \<le> length (optionInputs (newExam fallbackQuestions))
   \<and> answers (newExam fallbackQuestions) (currentQuestionIndex (newExam fallbackQuestions) + 1) = None
   \<and> answers (newExam fallbackQuestions)
        (id_q (questions (newExam fallbackQuestions) ! currentQuestionIndex (newExam fallbackQuestions))) = None
   \<and> (\<exists>s'. selectOption_basic (toString 2) (newExam fallbackQuestions) = Inr s'
          \<and> answers s' 1 = Some ''2''
          \<and> clearAnswer_basic s' = newExam fallbackQuestions)
   \<and> (\<exists>s'. selectOption_api 2 (newExam fallbackQuestions) = Inr s'
          \<and> answers s' 1 = Some ''2''
          \<and> clearAnswer_api s' = Inr (newExam fallbackQuestions))"
  using select_clear_roundtrip [of 2 "newExam fallbackQuestions"]
  by (simp add: newExam_def fallbackQuestions_def optionInputs_def toString.simps)


section \<open>The timer and the submission\<close>










section \<open>The two scoring functions against each other\<close>

text \<open>
  Claim C10 at a concrete input. In the session of the built-in questions, the first
  question answered with option 4 (its correct option, \<open>D\<close>), both classes hold the same
  answers; \<open>calculateResults\<close> counts the answer as incorrect and \<open>showOfflineResults\<close> as
  correct.
\<close>

theorem scoring_functions_differ:
  "fourth_basic = fourth_api
   \<and> map_sum id calculateResults fourth_basic =
       Inr \<lparr>total = 10, correct = 0, incorrect = 1, unattempted = 9, percentage = Some 0,
            attempted = 1\<rparr>
   \<and> map_sum id showOfflineResults fourth_api =
       Inr \<lparr>total = 10, correct = 1, incorrect = 0, unattempted = 9, percentage = Some 10\<rparr>"
proof (intro conjI)
  show "fourth_basic = fourth_api" by (simp add: fourth_basic_eq fourth_api_eq)
next
  show "map_sum id calculateResults fourth_basic =
       Inr \<lparr>total = 10, correct = 0, incorrect = 1, unattempted = 9, percentage = Some 0,
            attempted = 1\<rparr>"
    by (simp only: fourth_basic_eq map_sum.simps calculateResults_fourth)
next
  let ?s = "(newExam fallbackQuestions)\<lparr>answers := [1 \<mapsto> ''4'']\<rparr>"
  have "showOfflineResults ?s =
     \<lparr>total = int 10, correct = int (Suc 0), incorrect = int (Suc 0) - int (Suc 0),
      unattempted = int 10 - int (Suc 0), percentage = percentage_of (Suc 0) 10\<rparr>"
    by (rule showOfflineResults_eq)
       (simp_all add: newExam_def fallbackQuestions_def string_eval)
  then show "map_sum id showOfflineResults fourth_api =
       Inr \<lparr>total = 10, correct = 1, incorrect = 0, unattempted = 9, percentage = Some 10\<rparr>"
    by (simp add: fourth_api_eq percentage_of_1_10)
qed

section \<open>Loading the questions\<close>

text \<open>
  Claim C8, as the code has it. The API \<open>loadQuestions\<close> checks one thing, that the server
  sent a list that is not empty, with the status \<open>success\<close>. An empty list throws
  \<open>No questions received from API\<close> inside the \<open>try\<close> block; the \<open>catch\<close> block handles
  it and installs the ten built-in questions. Every list that is not empty is taken as it
  is.
\<close>

theorem loadQuestions_checks_emptiness_only:
  "loadQuestions_try (Json \<lparr>status = st, questions_d = Some []\<rparr>)
     = Inl (Error ''No questions received from API'')
   \<and> loadQuestions_api (Json \<lparr>status = st, questions_d = Some []\<rparr>) = fallbackQuestions
   \<and> (qs \<noteq> [] \<longrightarrow>
        loadQuestions_try (Json \<lparr>status = ''success'', questions_d = Some qs\<rparr>) = Inr qs
        \<and> loadQuestions_api (Json \<lparr>status = ''success'', questions_d = Some qs\<rparr>) = qs)"
  by (simp add: loadQuestions_try_def loadQuestions_api_def)

theorem loadQuestions_checks_emptiness_only_witness:
  "threeQuestions ''B'' ''A'' ''C'' \<noteq> []
   \<and> loadQuestions_api (Json \<lparr>status = ''success'',
        questions_d = Some (threeQuestions ''B'' ''A'' ''C'')\<rparr>) = threeQuestions ''B'' ''A'' ''C''
   \<and> loadQuestions_api (Json \<lparr>status = ''success'', questions_d = Some []\<rparr>) = fallbackQuestions"
  using loadQuestions_checks_emptiness_only [of "''success''" "threeQuestions ''B'' ''A'' ''C''"]
  by (simp add: threeQuestions_def)

text \<open>
  Claim C8 as the specification states it asks for a failure on a repeated id, on a
  \<open>correct\<close> field outside the options and on fewer than two options. A list with all three
  defects is accepted.
\<close>

theorem loadQuestions_accepts_malformed:
  "id_q (malformedQuestions ! 0) = id_q (malformedQuestions ! 1)
   \<and> length (options_q (malformedQuestions ! 0)) = 1
   \<and> loadQuestions_try (Json \<lparr>status = ''success'', questions_d = Some malformedQuestions\<rparr>)
       = Inr malformedQuestions
   \<and> loadQuestions_api (Json \<lparr>status = ''success'', questions_d = Some malformedQuestions\<rparr>)
       = malformedQuestions"
  by (simp add: loadQuestions_try_def loadQuestions_api_def malformedQuestions_def)


section \<open>Invariants of the reachable sessions\<close>

lemma fallbackQuestions_length: "length fallbackQuestions = 10"
  by (simp add: fallbackQuestions_def)

lemma fallbackQuestions_ids: "i < 10 \<Longrightarrow> id_q (fallbackQuestions ! i) = i + 1"
proof -
  assume "i < 10"
  moreover have "map id_q fallbackQuestions = map Suc [0..<10]"
    by (simp add: fallbackQuestions_def upt_rec)
  ultimately show ?thesis
    using nth_map [of i fallbackQuestions id_q] by (simp add: fallbackQuestions_length)
qed

lemma loadQuestions_api_nonempty: "loadQuestions_api response \<noteq> []"
  by (auto simp: loadQuestions_api_def loadQuestions_try_def fallbackQuestions_def
      split: fetched.splits option.splits if_splits)

lemma answersFit_store:
  assumes fit: "answersFitQuestions s" and r: "currentQuestionIndex s < length (questions s)"
    and k: "k = id_q (questions s ! currentQuestionIndex s)"
    and v: "value' \<in> set (optionInputs s)"
  shows "answersFitQuestions (s\<lparr>answers := (answers s)(k \<mapsto> value')\<rparr>)"
proof -
  from optionInputs_elem [OF v] obtain n where
    n: "1 \<le> n" "n \<le> length (options_q (questions s ! currentQuestionIndex s))" "value' = toString n"
    by blast
  have q: "questions s ! currentQuestionIndex s \<in> set (questions s)" using r by simp
  show ?thesis
    unfolding answersFitQuestions_def
  proof (intro allI impI)
    fix k' v'
    assume a: "answers (s\<lparr>answers := (answers s)(k \<mapsto> value')\<rparr>) k' = Some v'"
    show "\<exists>q\<in>set (questions (s\<lparr>answers := (answers s)(k \<mapsto> value')\<rparr>)). id_q q = k' \<and>
            (\<exists>n. 1 \<le> n \<and> n \<le> length (options_q q) \<and> v' = toString n)"
    proof (cases "k' = k")
      case True
      with a have "v' = value'" by simp
      with True k n q show ?thesis by auto
    next
      case False
      with a have "answers s k' = Some v'" by simp
      with fit show ?thesis by (simp add: answersFitQuestions_def)
    qed
  qed
qed

lemma answersFit_delete:
  "answersFitQuestions s \<Longrightarrow> answersFitQuestions (s\<lparr>answers := (answers s)(k := None)\<rparr>)"
  by (auto simp: answersFitQuestions_def split: if_splits)

lemma answersFit_frame:
  "answersFitQuestions s \<Longrightarrow> answers s' = answers s \<Longrightarrow> questions s' = questions s \<Longrightarrow>
   answersFitQuestions s'"
  by (simp add: answersFitQuestions_def)

lemma tick_basic_frame:
  "answers (tick_basic s) = answers s" "questions (tick_basic s) = questions s"
  "currentQuestionIndex (tick_basic s) = currentQuestionIndex s"
  by (simp_all add: tick_basic_def autoSubmitExam_def Let_def)

lemma tick_api_frame:
  "answers (snd (tick_api response s)) = answers s"
  "questions (snd (tick_api response s)) = questions s"
  "currentQuestionIndex (snd (tick_api response s)) = currentQuestionIndex s"
  by (simp_all add: tick_api_def timeUp_def submitExam_api_eq Let_def)

lemma reachable_basic_invariant:
  "reachable_basic s \<Longrightarrow>
   questions s = fallbackQuestions \<and> currentQuestionIndex s < length (questions s)
   \<and> answersFitQuestions s"
proof (induction rule: reachable_basic.induct)
  case init_basic
  show ?case
    by (simp add: newExam_sel loadQuestions_basic_def fallbackQuestions_length
        answersFitQuestions_def)
next
  case (previous_basic s)
  then show ?case
    by (auto simp: previousQuestion_def intro: answersFit_frame)
next
  case (next_basic s)
  then show ?case
    by (auto simp: nextQuestion_basic_def intro: answersFit_frame)
next
  case (goTo_basic s index)
  then show ?case
    by (auto simp: goToQuestion_def intro: answersFit_frame)
next
  case (select_basic s value' s')
  from select_basic.IH have q: "questions s = fallbackQuestions"
    and r: "currentQuestionIndex s < length (questions s)" and fit: "answersFitQuestions s"
    by blast+
  from select_basic.hyps(2) have v: "value' \<in> set (optionInputs s)"
    and s': "s' = s\<lparr>answers := (answers s)(currentQuestionIndex s + 1 \<mapsto> value')\<rparr>"
    by (auto simp: selectOption_basic_def split: if_splits)
  from q r have "currentQuestionIndex s < 10" by (simp add: fallbackQuestions_length)
  then have k: "currentQuestionIndex s + 1 = id_q (questions s ! currentQuestionIndex s)"
    using fallbackQuestions_ids [of "currentQuestionIndex s"] q by simp
  have "answersFitQuestions s'"
    unfolding s' using fit r k v by (rule answersFit_store)
  with q r show ?case by (simp add: s')
next
  case (save_basic s checked s')
  from save_basic.IH have q: "questions s = fallbackQuestions"
    and r: "currentQuestionIndex s < length (questions s)" and fit: "answersFitQuestions s"
    by blast+
  show ?case
  proof (cases checked)
    case None
    with save_basic show ?thesis by (auto simp: saveAnswer_basic_def)
  next
    case (Some value')
    with save_basic.hyps(2) have v: "value' \<in> set (optionInputs s)"
      and s': "s' = s\<lparr>answers := (answers s)(currentQuestionIndex s + 1 \<mapsto> value')\<rparr>"
      by (auto simp: saveAnswer_basic_def selectOption_basic_def split: if_splits)
    from q r have "currentQuestionIndex s < 10" by (simp add: fallbackQuestions_length)
    then have k: "currentQuestionIndex s + 1 = id_q (questions s ! currentQuestionIndex s)"
      using fallbackQuestions_ids [of "currentQuestionIndex s"] q by simp
    have "answersFitQuestions s'"
      unfolding s' using fit r k v by (rule answersFit_store)
    with q r show ?thesis by (simp add: s')
  qed
next
  case (clear_basic s)
  then show ?case by (auto simp: clearAnswer_basic_def Let_def answersFit_delete)
next
  case (mark_basic s)
  then show ?case
    by (auto simp: markForReview_basic_def Let_def intro: answersFit_frame)
next
  case (tick_basic s)
  then show ?case by (auto simp: tick_basic_frame intro: answersFit_frame)
next
  case (timeout_basic s r s')
  from timeout_basic.hyps(2) have
    "s' = s\<lparr>submitTimeouts := submitTimeouts s - 1, timerInterval := False, resultsPage := True\<rparr>"
    by (auto simp: submitTimeout_basic_def submitExam_basic_eq split: if_splits)
  with timeout_basic.IH show ?case by (auto intro: answersFit_frame)
next
  case (submit_basic s)
  then show ?case by (auto simp: submitExam_basic_eq intro: answersFit_frame)
qed

lemma reachable_api_invariant:
  "reachable_api s \<Longrightarrow>
   currentQuestionIndex s < length (questions s) \<and> answersFitQuestions s"
proof (induction rule: reachable_api.induct)
  case (init_api response)
  show ?case
    using loadQuestions_api_nonempty [of response]
    by (simp add: newExam_sel answersFitQuestions_def)
next
  case (previous_api s)
  then show ?case
    by (auto simp: previousQuestion_def intro: answersFit_frame)
next
  case (next_api s)
  then show ?case
    by (auto simp: nextQuestion_api_def intro: answersFit_frame)
next
  case (goTo_api s index)
  then show ?case
    by (auto simp: goToQuestion_def intro: answersFit_frame)
next
  case (select_api s optionNumber s')
  show ?case
  proof (cases "1 \<le> optionNumber \<and> optionNumber \<le> int (length (optionInputs s))")
    case False
    with select_api show ?thesis by (auto simp: selectOption_api_def)
  next
    case True
    with select_api have
      s': "s' = s\<lparr>answers := (answers s)(id_q (questions s ! currentQuestionIndex s)
              \<mapsto> toString (nat optionNumber))\<rparr>"
      by (simp add: selectOption_api_def getCurrentQuestionId_def)
    from True have "1 \<le> nat optionNumber" "nat optionNumber \<le> length (optionInputs s)"
      by linarith+
    moreover from True have "\<not> resultsPage s" by (auto simp: optionInputs_def)
    ultimately have "toString (nat optionNumber) \<in> set (optionInputs s)"
      using select_api.IH by (simp add: optionInputs_iff optionInputs_length)
    with select_api.IH have "answersFitQuestions s'"
      unfolding s' by (intro answersFit_store) simp_all
    with select_api.IH show ?thesis by (simp add: s')
  qed
next
  case (change_api s value' s')
  then have s': "s' = s\<lparr>answers := (answers s)(id_q (questions s ! currentQuestionIndex s) \<mapsto> value')\<rparr>"
    by (simp add: storeInputValue_api_def getCurrentQuestionId_def)
  from change_api have "answersFitQuestions s'"
    unfolding s' by (intro answersFit_store) simp_all
  with change_api.IH show ?case by (simp add: s')
next
  case (save_api s value' s')
  then have s': "s' = s\<lparr>answers := (answers s)(id_q (questions s ! currentQuestionIndex s) \<mapsto> value')\<rparr>"
    by (simp add: saveAnswer_api_def storeInputValue_api_def getCurrentQuestionId_def)
  from save_api have "answersFitQuestions s'"
    unfolding s' by (intro answersFit_store) simp_all
  with save_api.IH show ?case by (simp add: s')
next
  case (clear_api s s')
  then have "s' = s\<lparr>answers := (answers s)(id_q (questions s ! currentQuestionIndex s) := None)\<rparr>"
    by (simp add: clearAnswer_api_def getCurrentQuestionId_def)
  with clear_api.IH show ?case by (auto simp: answersFit_delete)
next
  case (mark_api s s')
  then show ?case
    by (auto simp: markForReview_api_def getCurrentQuestionId_def split: if_splits
        intro: answersFit_frame)
next
  case (tick_api s response)
  then show ?case by (auto simp: tick_api_frame intro: answersFit_frame)
next
  case (submit_api s response)
  then show ?case by (auto simp: submitExam_api_eq intro: answersFit_frame)
qed

text \<open>While the timer of a reachable session runs, time is left.\<close>

lemma reachable_timer:
  "reachable_basic s \<or> reachable_api s \<Longrightarrow> timerInterval s \<longrightarrow> 0 < timeRemaining s"
proof (erule disjE)
  show "reachable_basic s \<Longrightarrow> timerInterval s \<longrightarrow> 0 < timeRemaining s"
  proof (induction rule: reachable_basic.induct)
    case (timeout_basic s r s')
    then show ?case
      by (auto simp: submitTimeout_basic_def submitExam_basic_eq split: if_splits)
  qed (auto simp: newExam_sel previousQuestion_def nextQuestion_basic_def goToQuestion_def
        selectOption_basic_def saveAnswer_basic_def clearAnswer_basic_def markForReview_basic_def
        tick_basic_def autoSubmitExam_def submitExam_basic_eq Let_def
        split: if_splits option.splits)
  show "reachable_api s \<Longrightarrow> timerInterval s \<longrightarrow> 0 < timeRemaining s"
  proof (induction rule: reachable_api.induct)
  qed (auto simp: newExam_sel previousQuestion_def nextQuestion_api_def goToQuestion_def
        selectOption_api_def storeInputValue_api_def saveAnswer_api_def clearAnswer_api_def
        markForReview_api_def getCurrentQuestionId_def tick_api_def timeUp_def submitExam_api_eq
        Let_def split: if_splits option.splits)
qed

text \<open>
  The session in which the basic \<open>submitExam\<close> runs a second time, from the timeout that
  \<open>autoSubmitExam\<close> scheduled, is a reachable one.
\<close>

lemma reachable_ticks_basic: "reachable_basic s \<Longrightarrow> reachable_basic (ticks_basic n s)"
  by (induction n arbitrary: s) (simp_all add: reachable_basic.tick_basic)

lemma reachable_submitted_basic:
  "reachable_basic (snd (submitExam_basic (ticks_basic 5400
     ((newExam fallbackQuestions)\<lparr>answers := [1 \<mapsto> ''4'']\<rparr>))))"
proof -
  have "reachable_basic (newExam loadQuestions_basic)" by (rule init_basic)
  moreover have "selectOption_basic ''4'' (newExam loadQuestions_basic)
      = Inr ((newExam fallbackQuestions)\<lparr>answers := [1 \<mapsto> ''4'']\<rparr>)"
    using fourth_basic_eq by (simp only: fourth_basic_def)
  ultimately have "reachable_basic ((newExam fallbackQuestions)\<lparr>answers := [1 \<mapsto> ''4'']\<rparr>)"
    by (rule select_basic)
  then show ?thesis by (intro submit_basic reachable_ticks_basic)
qed

text \<open>
  Claim C7. In every reachable session of either class, every key of \<open>answers\<close> is the id
  of one of the questions, and the value under it is the decimal notation of a position,
  counted from 1, among the options of that question. \<open>selectOption\<close> stores its entry
  under the id of the current question, when the page shows the option input it looks up
  (on the results page it shows none: the basic \<open>selectOption\<close> throws and the API one
  returns without storing), and \<open>clearAnswer\<close> removes the entry under that id.
\<close>

theorem answers_keys_are_question_ids:
  assumes "reachable_basic s \<or> reachable_api s"
  shows "(answers s k = Some v \<longrightarrow>
            (\<exists>q \<in> set (questions s). id_q q = k \<and>
               (\<exists>n. 1 \<le> n \<and> n \<le> length (options_q q) \<and> v = toString n)))
       \<and> (reachable_basic s \<and> selectOption_basic value' s = Inr s' \<longrightarrow>
            s' = s\<lparr>answers := (answers s)(id_q (questions s ! currentQuestionIndex s) \<mapsto> value')\<rparr>)
       \<and> (reachable_basic s \<longrightarrow>
            clearAnswer_basic s
              = s\<lparr>answers := (answers s)(id_q (questions s ! currentQuestionIndex s) := None)\<rparr>)
       \<and> (reachable_api s \<and> 1 \<le> i \<and> i \<le> int (length (optionInputs s)) \<longrightarrow>
            selectOption_api i s
              = Inr (s\<lparr>answers := (answers s)(id_q (questions s ! currentQuestionIndex s)
                       \<mapsto> toString (nat i))\<rparr>))
       \<and> (reachable_api s \<longrightarrow>
            clearAnswer_api s
              = Inr (s\<lparr>answers := (answers s)(id_q (questions s ! currentQuestionIndex s) := None)\<rparr>))"
proof (intro conjI impI)
  assume "answers s k = Some v"
  moreover from assms have "answersFitQuestions s"
    using reachable_basic_invariant reachable_api_invariant by blast
  ultimately show "\<exists>q \<in> set (questions s). id_q q = k \<and>
      (\<exists>n. 1 \<le> n \<and> n \<le> length (options_q q) \<and> v = toString n)"
    by (simp add: answersFitQuestions_def)
next
  assume a: "reachable_basic s \<and> selectOption_basic value' s = Inr s'"
  then have "questions s = fallbackQuestions" "currentQuestionIndex s < length (questions s)"
    using reachable_basic_invariant by blast+
  then have "id_q (questions s ! currentQuestionIndex s) = currentQuestionIndex s + 1"
    using fallbackQuestions_ids [of "currentQuestionIndex s"] by (simp add: fallbackQuestions_length)
  with a show "s' = s\<lparr>answers := (answers s)(id_q (questions s ! currentQuestionIndex s) \<mapsto> value')\<rparr>"
    by (auto simp: selectOption_basic_def split: if_splits)
next
  assume "reachable_basic s"
  then have "questions s = fallbackQuestions" "currentQuestionIndex s < length (questions s)"
    using reachable_basic_invariant by blast+
  then have "id_q (questions s ! currentQuestionIndex s) = currentQuestionIndex s + 1"
    using fallbackQuestions_ids [of "currentQuestionIndex s"] by (simp add: fallbackQuestions_length)
  then show "clearAnswer_basic s
      = s\<lparr>answers := (answers s)(id_q (questions s ! currentQuestionIndex s) := None)\<rparr>"
    by (simp add: clearAnswer_basic_def Let_def)
next
  assume a: "reachable_api s \<and> 1 \<le> i \<and> i \<le> int (length (optionInputs s))"
  then have "currentQuestionIndex s < length (questions s)"
    using reachable_api_invariant by blast
  with a show "selectOption_api i s
      = Inr (s\<lparr>answers := (answers s)(id_q (questions s ! currentQuestionIndex s)
               \<mapsto> toString (nat i))\<rparr>)"
    by (simp add: selectOption_api_def getCurrentQuestionId_def)
next
  assume "reachable_api s"
  then have "currentQuestionIndex s < length (questions s)"
    using reachable_api_invariant by blast
  then show "clearAnswer_api s
      = Inr (s\<lparr>answers := (answers s)(id_q (questions s ! currentQuestionIndex s) := None)\<rparr>)"
    by (simp add: clearAnswer_api_def getCurrentQuestionId_def)
qed

theorem answers_keys_are_question_ids_witness:
  "reachable_basic ((newExam fallbackQuestions)\<lparr>answers := [1 \<mapsto> ''4'']\<rparr>)
   \<and> answers ((newExam fallbackQuestions)\<lparr>answers := [1 \<mapsto> ''4'']\<rparr>) 1 = Some ''4''
   \<and> (\<exists>q \<in> set fallbackQuestions. id_q q = 1 \<and>
         (\<exists>n. 1 \<le> n \<and> n \<le> length (options_q q) \<and> ''4'' = toString n))
   \<and> reachable_basic (newExam fallbackQuestions) \<and> reachable_api (newExam fallbackQuestions)
   \<and> id_q (questions (newExam fallbackQuestions) ! currentQuestionIndex (newExam fallbackQuestions)) = 1
   \<and> selectOption_basic ''4'' (newExam fallbackQuestions)
       = Inr ((newExam fallbackQuestions)\<lparr>answers := [1 \<mapsto> ''4'']\<rparr>)
   \<and> selectOption_api 4 (newExam fallbackQuestions)
       = Inr ((newExam fallbackQuestions)\<lparr>answers := [1 \<mapsto> ''4'']\<rparr>)
   \<and> clearAnswer_basic ((newExam fallbackQuestions)\<lparr>answers := [1 \<mapsto> ''4'']\<rparr>)
       = newExam fallbackQuestions
   \<and> clearAnswer_api (newExam fallbackQuestions) = Inr (newExam fallbackQuestions)"
proof -
  let ?s0 = "newExam fallbackQuestions"
  let ?s1 = "(newExam fallbackQuestions)\<lparr>answers := [1 \<mapsto> ''4'']\<rparr>"
  have b0: "reachable_basic ?s0"
    using init_basic by (simp add: loadQuestions_basic_def)
  have a0: "reachable_api ?s0"
    using init_api [of Rejected] by (simp add: loadQuestions_api_def loadQuestions_try_def)
  have sel: "selectOption_basic ''4'' ?s0 = Inr ?s1"
    using fourth_basic_eq by (simp add: fourth_basic_def loadQuestions_basic_def)
  from b0 sel have b1: "reachable_basic ?s1" by (rule select_basic)
  have id0: "id_q (questions ?s0 ! currentQuestionIndex ?s0) = 1"
    by (simp add: newExam_sel fallbackQuestions_def)
  have len0: "(4::int) \<le> int (length (optionInputs ?s0))"
    by (simp add: optionInputs_def newExam_sel fallbackQuestions_def)
  have key: "\<exists>q \<in> set fallbackQuestions. id_q q = 1 \<and>
         (\<exists>n. 1 \<le> n \<and> n \<le> length (options_q q) \<and> ''4'' = toString n)"
    using answers_keys_are_question_ids [of ?s1 1 "''4''"] b1 by (simp add: newExam_sel)
  have api: "selectOption_api 4 ?s0 = Inr ?s1"
    using answers_keys_are_question_ids [of ?s0 1 "''4''" "''4''" ?s1 4] a0 len0 id0
    by (simp add: newExam_sel toString.simps)
  have clr: "clearAnswer_basic ?s1 = ?s0"
    using answers_keys_are_question_ids [of ?s1 1 "''4''" "''4''" ?s1 4] b1
    by (simp add: newExam_def fallbackQuestions_def)
  have clra: "clearAnswer_api ?s0 = Inr ?s0"
    using answers_keys_are_question_ids [of ?s0 1 "''4''" "''4''" ?s1 4] a0
    by (simp add: newExam_def fallbackQuestions_def)
  from b1 key b0 a0 id0 sel api clr clra show ?thesis by simp
qed

end
